theory Spec2Isabelle
  imports Complex_Main "HOL-Library.Word" "HOL-Library.Log_Nat"
begin

section \<open>JavaScript values\<close>

text \<open>
  A JavaScript string is a sequence of UTF-16 code units; \<open>length\<close>, \<open>substring\<close>,
  \<open>startsWith\<close>, \<open>includes\<close> and \<open>trim\<close> all work on code units. \<open>js\<close> turns an
  ASCII literal of the source into that representation.
\<close>

type_synonym code_unit = "16 word"
type_synonym jsstring = "code_unit list"

definition js :: "string \<Rightarrow> jsstring" where
  "js s = map (\<lambda>c. of_char c) s"

text \<open>
  The fields of a parsed JSON body. A finite number is kept as the rational it denotes.
\<close>

datatype jsval =
    JUndefined
  | JNull
  | JBool bool
  | JNum rat
  | JStr jsstring
  | JArr "jsval list"
  | JObj "(jsstring \<times> jsval) list"

text \<open>ToBoolean: what \<open>!v\<close> and \<open>v || d\<close> test.\<close>

fun truthy :: "jsval \<Rightarrow> bool" where
  "truthy JUndefined = False"
| "truthy JNull = False"
| "truthy (JBool b) = b"
| "truthy (JNum x) = (x \<noteq> 0)"
| "truthy (JStr s) = (s \<noteq> [])"
| "truthy (JArr vs) = True"
| "truthy (JObj kvs) = True"

definition js_or :: "jsval \<Rightarrow> jsval \<Rightarrow> jsval" where
  "js_or v d = (if truthy v then v else d)"

text \<open>A destructuring default applies only when the property is \<open>undefined\<close>.\<close>

definition default_to :: "jsval \<Rightarrow> jsval \<Rightarrow> jsval" where
  "default_to d v = (if v = JUndefined then d else v)"

text \<open>\<open>n || 0\<close> on a number that may be absent.\<close>

definition or0 :: "int option \<Rightarrow> int" where
  "or0 v = (case v of None \<Rightarrow> 0 | Some n \<Rightarrow> if n \<noteq> 0 then n else 0)"

subsection \<open>String operations\<close>

text \<open>\<open>s.startsWith(p)\<close> and \<open>s.includes(p)\<close>.\<close>

fun str_startsWith :: "'a list \<Rightarrow> 'a list \<Rightarrow> bool" where
  "str_startsWith s [] = True"
| "str_startsWith [] (p # ps) = False"
| "str_startsWith (c # cs) (p # ps) = (c = p \<and> str_startsWith cs ps)"

fun str_includes :: "'a list \<Rightarrow> 'a list \<Rightarrow> bool" where
  "str_includes [] p = (p = [])"
| "str_includes (c # cs) p = (str_startsWith (c # cs) p \<or> str_includes cs p)"

text \<open>
  The code units \<open>trim\<close> strips: ECMAScript WhiteSpace (TAB, VT, FF, SP, NBSP, ZWNBSP
  and the space separators) and LineTerminator (LF, CR, LS, PS).
\<close>

definition is_whitespace :: "code_unit \<Rightarrow> bool" where
  "is_whitespace c = (c \<in> set [0x0009, 0x000A, 0x000B, 0x000C, 0x000D, 0x0020, 0x00A0,
     0x1680, 0x2000, 0x2001, 0x2002, 0x2003, 0x2004, 0x2005, 0x2006, 0x2007, 0x2008,
     0x2009, 0x200A, 0x2028, 0x2029, 0x202F, 0x205F, 0x3000, 0xFEFF])"

definition str_trim :: "jsstring \<Rightarrow> jsstring" where
  "str_trim s = rev (dropWhile is_whitespace (rev (dropWhile is_whitespace s)))"

text \<open>\<open>s.substring(0, n)\<close>.\<close>

definition substring0 :: "nat \<Rightarrow> jsstring \<Rightarrow> jsstring" where
  "substring0 n s = take n s"

subsection \<open>Number operations\<close>

text \<open>
  A JavaScript number is an IEEE 754 double. A finite double is kept as the rational it
  denotes, and \<open>fl\<close> rounds a rational to the nearest double, a tie going to the even
  significand: \<open>exponent x\<close> is the \<open>e\<close> with \<open>2\<^sup>e \<le> x < 2\<^sup>e\<^sup>+\<^sup>1\<close>, the significand has 53
  bits, and below \<open>2\<^sup>-\<^sup>1\<^sup>0\<^sup>2\<^sup>2\<close> the spacing stays \<open>2\<^sup>-\<^sup>1\<^sup>0\<^sup>7\<^sup>4\<close>. So \<open>a * b\<close> of the source is
  \<open>fl (a * b)\<close>, and the literal \<open>0.01\<close> is \<open>fl (1 / 100)\<close>. Overflow to \<open>Infinity\<close> (from
  \<open>2\<^sup>1\<^sup>0\<^sup>2\<^sup>4\<close> on) is outside the model. Token counts and times are integers, on which
  sums and the rounded mean are exact as long as they stay below \<open>2\<^sup>5\<^sup>2\<close>; they are kept
  as \<open>int\<close>.
\<close>

definition pow2 :: "int \<Rightarrow> rat" where
  "pow2 k = (if 0 \<le> k then 2 ^ nat k else 1 / 2 ^ nat (- k))"

definition exponent :: "rat \<Rightarrow> int" where
  "exponent x =
     (let (a, b) = quotient_of x; k = bitlen a - bitlen b
      in if pow2 k \<le> x then k else k - 1)"

definition round_half_even :: "rat \<Rightarrow> int" where
  "round_half_even y =
     (let n = \<lfloor>y\<rfloor>; d = y - of_int n
      in if d < 1 / 2 then n else if 1 / 2 < d then n + 1 else if even n then n else n + 1)"

definition fl :: "rat \<Rightarrow> rat" where
  "fl x =
     (if x = 0 then 0
      else let q = max (exponent \<bar>x\<bar> - 52) (- 1074)
           in sgn x * of_int (round_half_even (\<bar>x\<bar> / pow2 q)) * pow2 q)"

text \<open>\<open>Math.round\<close> rounds a tie towards plus infinity, \<open>Math.floor\<close> is the floor.\<close>

definition Math_round :: "rat \<Rightarrow> int" where
  "Math_round x = \<lfloor>x + 1 / 2\<rfloor>"

definition Math_floor :: "rat \<Rightarrow> int" where
  "Math_floor x = \<lfloor>x\<rfloor>"

text \<open>
  The decimal that the text \<open>x.toFixed(6)\<close> shows: the multiple of \<open>10\<^sup>-\<^sup>6\<close> nearest to
  \<open>x\<close>, a tie going away from zero (the sign is split off first, then the larger
  candidate is taken). From \<open>10\<^sup>2\<^sup>1\<close> on \<open>toFixed\<close> prints the number itself, which as a
  double is an integer, so the formula covers that case too.
\<close>

definition toFixed6 :: "rat \<Rightarrow> rat" where
  "toFixed6 x =
     (if x < 0 then - (of_int \<lfloor>- x * 1000000 + 1 / 2\<rfloor> / 1000000)
      else of_int \<lfloor>x * 1000000 + 1 / 2\<rfloor> / 1000000)"

text \<open>
  Where \<open>NaN\<close> can arise (the costs), a number is a finite double or \<open>NaN\<close>. \<open>a + b\<close> and
  \<open>parseFloat(x.toFixed(6))\<close> on such numbers: \<open>NaN\<close> stays \<open>NaN\<close>, and the text of a
  decimal parses to the nearest double.
\<close>

datatype number = Num rat | NaN

fun num_add :: "number \<Rightarrow> number \<Rightarrow> number" where
  "num_add (Num a) (Num b) = Num (fl (a + b))"
| "num_add a b = NaN"

fun fixed6 :: "number \<Rightarrow> number" where
  "fixed6 (Num x) = Num (fl (toFixed6 x))"
| "fixed6 NaN = NaN"

text \<open>
  A cost total is stored either as a number (live path) or as the text produced by
  \<open>toFixed(6)\<close> (simulated path); the text is kept as the decimal it shows. \<open>parseFloat\<close>
  of a number gives the number back, of the text the nearest double.
\<close>

datatype cost_value = NumberValue number | FixedText rat

fun cost_truthy :: "cost_value \<Rightarrow> bool" where
  "cost_truthy (NumberValue (Num x)) = (x \<noteq> 0)"
| "cost_truthy (NumberValue NaN) = False"
| "cost_truthy (FixedText x) = True"

fun parseFloat :: "cost_value \<Rightarrow> number" where
  "parseFloat (NumberValue n) = n"
| "parseFloat (FixedText x) = Num (fl x)"

section \<open>Results\<close>

record tokens =
  tokens_prompt :: "int option"
  tokens_completion :: "int option"
  tokens_total :: int

record cost =
  cost_input :: "number option"
  cost_output :: "number option"
  cost_total :: cost_value

text \<open>
  \<open>timestamp\<close> holds the clock reading behind \<open>new Date().toISOString()\<close>; the ISO
  rendering is not modelled.
\<close>

record metadata =
  responseTime :: int
  tokens :: "tokens option"
  cost :: "cost option"
  timestamp :: int

text \<open>
  One entry of \<open>results\<close>. A property that an object literal of the source does not
  set is \<open>None\<close>.
\<close>

record model_result =
  success :: bool
  model :: jsstring
  provider :: jsstring
  prompt :: jsstring
  response :: "jsstring option"
  error :: "jsstring option"
  errorCode :: "jsstring option"
  metadata :: metadata

section \<open>Environment and effects\<close>

record chat_request =
  cr_model :: jsstring
  cr_content :: jsstring
  cr_temperature :: jsval
  cr_max_tokens :: jsval

record usage =
  prompt_tokens :: "int option"
  completion_tokens :: "int option"
  total_tokens :: "int option"

text \<open>
  What the remote completion call resolves with, as far as the adapter reads it:
  \<open>choices\<close> (absent, or a list whose entries may lack \<open>message.content\<close>) and \<open>usage\<close>.
\<close>

record completion =
  choices :: "jsstring option list option"
  usage :: "usage option"

text \<open>
  Everything the handler reads from outside: the two environment variables, the
  successive values of \<open>Math.random()\<close> and of the clock, and the remote API, which
  either rejects with an \<open>Error\<close> (its message is \<open>Inl\<close>) or resolves.
\<close>

record env =
  OPENAI_API_KEY :: "jsstring option"
  ANTHROPIC_API_KEY :: "jsstring option"
  random_src :: "nat \<Rightarrow> rat"
  clock_src :: "nat \<Rightarrow> int"
  create_src :: "nat \<Rightarrow> chat_request \<Rightarrow> jsstring + completion"

datatype service = OpenAIService | AnthropicService

text \<open>
  The state threaded through a request: how many random numbers, clock readings and
  remote calls have been consumed, and the log of adapter invocations.
\<close>

record state =
  random_ix :: nat
  clock_ix :: nat
  create_ix :: nat
  invocations :: "(service \<times> jsstring) list"

definition Math_random :: "env \<Rightarrow> state \<Rightarrow> rat \<times> state" where
  "Math_random e s = (random_src e (random_ix s), s\<lparr>random_ix := Suc (random_ix s)\<rparr>)"

definition Date_now :: "env \<Rightarrow> state \<Rightarrow> int \<times> state" where
  "Date_now e s = (clock_src e (clock_ix s), s\<lparr>clock_ix := Suc (clock_ix s)\<rparr>)"

definition create_completion :: "env \<Rightarrow> state \<Rightarrow> chat_request \<Rightarrow> (jsstring + completion) \<times> state" where
  "create_completion e s rq = (create_src e (create_ix s) rq, s\<lparr>create_ix := Suc (create_ix s)\<rparr>)"

definition invoked :: "service \<Rightarrow> jsstring \<Rightarrow> state \<Rightarrow> state" where
  "invoked sv m s = s\<lparr>invocations := invocations s @ [(sv, m)]\<rparr>"

text \<open>
  A client handle exists when the key is set, non-empty and not the development
  placeholder.
\<close>

definition client_of :: "jsstring option \<Rightarrow> bool" where
  "client_of key =
     (case key of None \<Rightarrow> False
      | Some k \<Rightarrow> k \<noteq> [] \<and> k \<noteq> js ''mock_key_for_development'')"

definition openai :: "env \<Rightarrow> bool" where
  "openai e = client_of (OPENAI_API_KEY e)"

definition anthropic :: "env \<Rightarrow> bool" where
  "anthropic e = client_of (ANTHROPIC_API_KEY e)"

record options =
  opt_temperature :: jsval
  opt_maxTokens :: jsval

section \<open>The adapters\<close>

text \<open>
  \<open>try { ... } catch (error) { ... }\<close>: the outcome of the \<open>try\<close> block is the object it
  returns (\<open>Inr\<close>) or the \<open>Error\<close> thrown inside it (\<open>Inl\<close>), which goes to the handler.
\<close>

definition try_catch :: "('x + 'a) \<times> 's \<Rightarrow> ('x \<Rightarrow> 's \<Rightarrow> 'a \<times> 's) \<Rightarrow> 'a \<times> 's" where
  "try_catch outcome handler =
     (case outcome of
        (Inr r, s) \<Rightarrow> (r, s)
      | (Inl err, s) \<Rightarrow> handler err s)"

text \<open>The text after \<open>Your prompt was:\<close> in a simulated response.\<close>

definition prompt_excerpt :: "jsstring \<Rightarrow> jsstring" where
  "prompt_excerpt p =
     [0x22] @ substring0 50 p @ (if length p > 50 then js ''...'' else []) @ [0x22]"

subsection \<open>The OpenAI adapter\<close>

text \<open>
  \<open>MODEL_PRICING\<close> (per 1K tokens) as (input, output). The lookup
  \<open>MODEL_PRICING[model] || MODEL_PRICING['gpt-3.5-turbo']\<close> finds the table's own keys and
  also the members that every object inherits from \<open>Object.prototype\<close>: such a member is
  truthy and has neither \<open>input\<close> nor \<open>output\<close>, so the costs computed from it are \<open>NaN\<close>.
\<close>

definition openai_MODEL_PRICING :: "(jsstring \<times> rat \<times> rat) list" where
  "openai_MODEL_PRICING =
     [(js ''gpt-3.5-turbo'', fl (1 / 1000), fl (2 / 1000)),
      (js ''gpt-4'', fl (1 / 100), fl (3 / 100)),
      (js ''gpt-4-turbo'', fl (1 / 100), fl (3 / 100))]"

definition Object_prototype_keys :: "jsstring list" where
  "Object_prototype_keys =
     [js ''constructor'', js ''hasOwnProperty'', js ''isPrototypeOf'',
      js ''propertyIsEnumerable'', js ''toLocaleString'', js ''toString'', js ''valueOf'',
      js ''__proto__'', js ''__defineGetter__'', js ''__defineSetter__'',
      js ''__lookupGetter__'', js ''__lookupSetter__'']"

datatype pricing = Prices rat rat | NoPrices

definition openai_pricing :: "jsstring \<Rightarrow> pricing" where
  "openai_pricing m =
     (case map_of openai_MODEL_PRICING m of
        Some (pin, pout) \<Rightarrow> Prices pin pout
      | None \<Rightarrow>
          if m \<in> set Object_prototype_keys then NoPrices
          else Prices (fl (1 / 1000)) (fl (2 / 1000)))"

text \<open>\<open>tokens * price / 1000\<close>, with \<open>price\<close> possibly \<open>undefined\<close>.\<close>

definition token_cost :: "int \<Rightarrow> rat option \<Rightarrow> number" where
  "token_cost n price =
     (case price of
        None \<Rightarrow> NaN
      | Some c \<Rightarrow> Num (fl (fl (of_int n * c) / 1000)))"

text \<open>
  The message of the \<open>TypeError\<close> raised by \<open>response.choices[0]\<close> when \<open>choices\<close> is
  absent, as V8 words it: \<open>Cannot read properties of undefined (reading '0')\<close>.
\<close>

definition TypeError_message :: jsstring where
  "TypeError_message =
     js ''Cannot read properties of undefined (reading '' @ [0x27] @ js ''0'' @ [0x27] @ js '')''"

definition response_text :: "jsstring option list \<Rightarrow> jsstring" where
  "response_text cs =
     (case cs of
        [] \<Rightarrow> js ''No response generated''
      | c # _ \<Rightarrow>
          (case c of
             None \<Rightarrow> js ''No response generated''
           | Some t \<Rightarrow> if t \<noteq> [] then t else js ''No response generated''))"

text \<open>
  The argument of \<open>openai.chat.completions.create\<close>: one user message, and the
  options with their fallbacks \<open>options.temperature || 0.7\<close>, \<open>options.maxTokens || 500\<close>.
\<close>

definition completion_request :: "jsstring \<Rightarrow> jsstring \<Rightarrow> options \<Rightarrow> chat_request" where
  "completion_request p m opts =
     \<lparr>cr_model = m, cr_content = p,
      cr_temperature = js_or (opt_temperature opts) (JNum (fl (7 / 10))),
      cr_max_tokens = js_or (opt_maxTokens opts) (JNum 500)\<rparr>"

text \<open>
  The \<open>try\<close> block of \<open>testPrompt\<close>. The artificial delay of the simulated branch is not
  modelled.
\<close>

definition openai_try ::
  "env \<Rightarrow> state \<Rightarrow> int \<Rightarrow> jsstring \<Rightarrow> jsstring \<Rightarrow> options \<Rightarrow> (jsstring + model_result) \<times> state" where
  "openai_try e s0 startTime p m opts =
     (if \<not> openai e then
        let (r1, s1) = Math_random e s0;
            rt = fl (1000 + fl (r1 * 1500));
            (r2, s2) = Math_random e s1;
            (r3, s3) = Math_random e s2;
            (t, s4) = Date_now e s3
        in (Inr \<lparr>success = True, model = m, provider = js ''OpenAI'', prompt = p,
                 response = Some (js ''Mock response from '' @ m
                   @ js '': This would be a real AI response if you had configured your OpenAI API key. Your prompt was: ''
                   @ prompt_excerpt p),
                 error = None, errorCode = None,
                 metadata = \<lparr>responseTime = Math_round rt,
                   tokens = Some \<lparr>tokens_prompt = None, tokens_completion = None,
                     tokens_total = Math_floor (fl (r2 * 200)) + 50\<rparr>,
                   cost = Some \<lparr>cost_input = None, cost_output = None,
                     cost_total = FixedText (toFixed6 (fl (r3 * fl (1 / 100))))\<rparr>,
                   timestamp = t\<rparr>\<rparr>, s4)
      else
        let (res, s1) = create_completion e s0 (completion_request p m opts)
        in (case res of
              Inl msg \<Rightarrow> (Inl msg, s1)
            | Inr resp \<Rightarrow>
                let (endTime, s2) = Date_now e s1
                in (case choices resp of
                      None \<Rightarrow> (Inl TypeError_message, s2)
                    | Some cs \<Rightarrow>
                        let responseText = response_text cs;
                            u = (case usage resp of
                                   None \<Rightarrow> \<lparr>prompt_tokens = None, completion_tokens = None, total_tokens = None\<rparr>
                                 | Some u' \<Rightarrow> u');
                            pricing = openai_pricing m;
                            inputCost = token_cost (or0 (prompt_tokens u))
                              (case pricing of Prices pin pout \<Rightarrow> Some pin | NoPrices \<Rightarrow> None);
                            outputCost = token_cost (or0 (completion_tokens u))
                              (case pricing of Prices pin pout \<Rightarrow> Some pout | NoPrices \<Rightarrow> None);
                            totalCost = num_add inputCost outputCost;
                            (t, s3) = Date_now e s2
                        in (Inr \<lparr>success = True, model = m, provider = js ''OpenAI'', prompt = p,
                                 response = Some responseText,
                                 error = None, errorCode = None,
                                 metadata = \<lparr>responseTime = endTime - startTime,
                                   tokens = Some \<lparr>tokens_prompt = Some (or0 (prompt_tokens u)),
                                     tokens_completion = Some (or0 (completion_tokens u)),
                                     tokens_total = or0 (total_tokens u)\<rparr>,
                                   cost = Some \<lparr>cost_input = Some (fixed6 inputCost),
                                     cost_output = Some (fixed6 outputCost),
                                     cost_total = NumberValue (fixed6 totalCost)\<rparr>,
                                   timestamp = t\<rparr>\<rparr>, s3))))"

text \<open>The \<open>catch\<close> block: the failure object built from the caught error's message.\<close>

definition openai_catch ::
  "env \<Rightarrow> state \<Rightarrow> int \<Rightarrow> jsstring \<Rightarrow> jsstring \<Rightarrow> jsstring \<Rightarrow> model_result \<times> state" where
  "openai_catch e s0 startTime p m msg =
     (let (now, s1) = Date_now e s0;
          (t, s2) = Date_now e s1
      in (\<lparr>success = False, model = m, provider = js ''OpenAI'', prompt = p,
           response = None, error = Some msg, errorCode = None,
           metadata = \<lparr>responseTime = now - startTime, tokens = None, cost = None,
             timestamp = t\<rparr>\<rparr>, s2))"

definition openai_testPrompt ::
  "env \<Rightarrow> state \<Rightarrow> jsstring \<Rightarrow> jsstring \<Rightarrow> options \<Rightarrow> model_result \<times> state" where
  "openai_testPrompt e s p m opts =
     (let (startTime, s1) = Date_now e (invoked OpenAIService m s)
      in try_catch (openai_try e s1 startTime p m opts)
           (\<lambda>msg s2. openai_catch e s2 startTime p m msg))"

subsection \<open>The Anthropic adapter\<close>

text \<open>
  Both branches of the \<open>try\<close> block build a simulated success; they differ in the
  response text only. No operation inside the block throws.
\<close>

definition anthropic_try ::
  "env \<Rightarrow> state \<Rightarrow> int \<Rightarrow> jsstring \<Rightarrow> jsstring \<Rightarrow> options \<Rightarrow> (jsstring + model_result) \<times> state" where
  "anthropic_try e s0 startTime p m opts =
     (let (r1, s1) = Math_random e s0;
          rt = fl (1200 + fl (r1 * 1800));
          (r2, s2) = Math_random e s1;
          (r3, s3) = Math_random e s2;
          (t, s4) = Date_now e s3
      in (Inr \<lparr>success = True, model = m, provider = js ''Anthropic'', prompt = p,
               response = Some
                 (if \<not> anthropic e then
                    js ''Mock response from '' @ m
                    @ js '': This would be a real Claude response if you had configured your Anthropic API key. Your prompt was: ''
                    @ prompt_excerpt p
                  else
                    js ''Mock Claude response: I understand you want me to respond to '' @ [0x22]
                    @ substring0 30 p @ js ''...'' @ [0x22]
                    @ js '' - this would be a real Claude response with proper API integration.''),
               error = None, errorCode = None,
               metadata = \<lparr>responseTime = Math_round rt,
                 tokens = Some \<lparr>tokens_prompt = None, tokens_completion = None,
                   tokens_total = Math_floor (fl (r2 * 250)) + 60\<rparr>,
                 cost = Some \<lparr>cost_input = None, cost_output = None,
                   cost_total = FixedText (toFixed6 (fl (r3 * fl (2 / 100))))\<rparr>,
                 timestamp = t\<rparr>\<rparr>, s4))"

definition anthropic_catch ::
  "env \<Rightarrow> state \<Rightarrow> int \<Rightarrow> jsstring \<Rightarrow> jsstring \<Rightarrow> jsstring \<Rightarrow> model_result \<times> state" where
  "anthropic_catch e s0 startTime p m msg =
     (let (now, s1) = Date_now e s0;
          (t, s2) = Date_now e s1
      in (\<lparr>success = False, model = m, provider = js ''Anthropic'', prompt = p,
           response = None, error = Some msg, errorCode = None,
           metadata = \<lparr>responseTime = now - startTime, tokens = None, cost = None,
             timestamp = t\<rparr>\<rparr>, s2))"

definition anthropic_testPrompt ::
  "env \<Rightarrow> state \<Rightarrow> jsstring \<Rightarrow> jsstring \<Rightarrow> options \<Rightarrow> model_result \<times> state" where
  "anthropic_testPrompt e s p m opts =
     (let (startTime, s1) = Date_now e (invoked AnthropicService m s)
      in try_catch (anthropic_try e s1 startTime p m opts)
           (\<lambda>msg s2. anthropic_catch e s2 startTime p m msg))"

section \<open>The handler of POST /api/prompts/test\<close>

text \<open>The five properties the handler destructures from the request body.\<close>

record body =
  b_prompt :: jsval
  b_models :: jsval
  b_iterations :: jsval
  b_temperature :: jsval
  b_maxTokens :: jsval

record summary =
  totalModels :: nat
  successfulModels :: nat
  failedModels :: nat
  totalTokens :: int
  totalCost :: number
  avgResponseTime :: int

text \<open>
  The body of the 200 response. \<open>testId\<close> holds the clock reading that follows the
  \<open>test_\<close> prefix.
\<close>

record ok_body =
  testId :: int
  ok_prompt :: jsstring
  ok_models :: "jsval list"
  ok_iterations :: jsval
  results :: "model_result list"
  ok_summary :: summary
  ok_timestamp :: int

text \<open>
  The two ways the handler answers without results: 400 with its message, and 500
  from the outer \<open>catch\<close> with the timestamp of its body (the message of the caught
  error is not modelled).
\<close>

datatype http_error = ValidationError jsstring | InternalError int

text \<open>The outer \<open>catch\<close> block: it reads the clock for the body of the 500 response.\<close>

definition internal_error :: "env \<Rightarrow> state \<Rightarrow> (http_error + 'a) \<times> state" where
  "internal_error e s = (let (t, s1) = Date_now e s in (Inl (InternalError t), s1))"

text \<open>The object built for an id that matches neither classifier.\<close>

definition unsupported_result :: "env \<Rightarrow> state \<Rightarrow> jsstring \<Rightarrow> jsstring \<Rightarrow> model_result \<times> state" where
  "unsupported_result e s p modelId =
     (let (t, s1) = Date_now e s
      in (\<lparr>success = False, model = modelId, provider = js ''Unknown'', prompt = p,
           response = None, error = Some (js ''Unsupported model: '' @ modelId),
           errorCode = Some (js ''UNSUPPORTED_MODEL''),
           metadata = \<lparr>responseTime = 0, tokens = None, cost = None, timestamp = t\<rparr>\<rparr>, s1))"

text \<open>One pass of the loop body for a string id: the routing.\<close>

definition test_model :: "env \<Rightarrow> state \<Rightarrow> jsstring \<Rightarrow> options \<Rightarrow> jsstring \<Rightarrow> model_result \<times> state" where
  "test_model e s p opts modelId =
     (if str_startsWith modelId (js ''gpt-'') \<or> str_includes modelId (js ''gpt'') then
        openai_testPrompt e s p modelId opts
      else if str_startsWith modelId (js ''claude-'') then
        anthropic_testPrompt e s p modelId opts
      else unsupported_result e s p modelId)"

text \<open>
  The loop \<open>for (const modelId of models)\<close>, with \<open>acc\<close> the array \<open>results\<close> so far.
  An element that is not a string has no callable \<open>startsWith\<close>: the \<open>TypeError\<close>
  leaves the loop (\<open>Inl\<close>).
\<close>

fun test_models ::
  "env \<Rightarrow> jsstring \<Rightarrow> options \<Rightarrow> jsval list \<Rightarrow> state \<Rightarrow> model_result list \<Rightarrow> (unit + model_result list) \<times> state" where
  "test_models e p opts [] s acc = (Inr acc, s)"
| "test_models e p opts (JStr modelId # ms) s acc =
     (case test_model e s p opts modelId of
        (r, s1) \<Rightarrow> test_models e p opts ms s1 (acc @ [r]))"
| "test_models e p opts (v # ms) s acc = (Inl (), s)"

subsection \<open>Summary statistics\<close>

text \<open>\<open>r.metadata?.tokens?.total || 0\<close>\<close>

definition tokens_of :: "model_result \<Rightarrow> int" where
  "tokens_of r =
     (case tokens (metadata r) of
        None \<Rightarrow> 0
      | Some t \<Rightarrow> or0 (Some (tokens_total t)))"

text \<open>\<open>parseFloat(r.metadata?.cost?.total || 0)\<close>\<close>

definition cost_of :: "model_result \<Rightarrow> number" where
  "cost_of r =
     (case cost (metadata r) of
        None \<Rightarrow> parseFloat (NumberValue (Num 0))
      | Some c \<Rightarrow>
          parseFloat (if cost_truthy (cost_total c) then cost_total c else NumberValue (Num 0)))"

text \<open>\<open>r.metadata?.responseTime || 0\<close>\<close>

definition responseTime_of :: "model_result \<Rightarrow> int" where
  "responseTime_of r = or0 (Some (responseTime (metadata r)))"

definition summarize :: "nat \<Rightarrow> model_result list \<Rightarrow> summary" where
  "summarize n rs =
     (let successfulResults = filter (\<lambda>r. success r) rs;
          failedResults = filter (\<lambda>r. \<not> success r) rs;
          totalTokens = foldl (\<lambda>sum r. sum + tokens_of r) 0 successfulResults;
          totalCostRaw = foldl (\<lambda>sum r. num_add sum (cost_of r)) (Num 0) successfulResults;
          avgResponseTime =
            (if length successfulResults > 0
             then Math_round
               (of_int (foldl (\<lambda>sum r. sum + responseTime_of r) 0 successfulResults)
                / of_nat (length successfulResults))
             else 0)
      in \<lparr>totalModels = n,
          successfulModels = length successfulResults,
          failedModels = length failedResults,
          totalTokens = totalTokens,
          totalCost = fixed6 totalCostRaw,
          avgResponseTime = avgResponseTime\<rparr>)"

subsection \<open>The handler\<close>

definition prompt_required :: jsstring where
  "prompt_required = js ''Prompt is required and cannot be empty''"

definition model_required :: jsstring where
  "model_required = js ''At least one model must be selected''"

text \<open>
  A prompt that is truthy but not a string has no callable \<open>trim\<close>: the \<open>TypeError\<close>
  goes to the outer \<open>catch\<close>, as does one raised in the loop. The first sum of the
  summary starts from the integer 0 and the second from the double 0.
\<close>

definition post_prompts_test :: "env \<Rightarrow> state \<Rightarrow> body \<Rightarrow> (http_error + ok_body) \<times> state" where
  "post_prompts_test e s b =
     (let iterations = default_to (JNum 1) (b_iterations b);
          temperature = default_to (JNum (fl (7 / 10))) (b_temperature b);
          maxTokens = default_to (JNum 500) (b_maxTokens b)
      in if \<not> truthy (b_prompt b) then (Inl (ValidationError prompt_required), s)
         else (case b_prompt b of
                 JStr p \<Rightarrow>
                   if \<not> truthy (JStr (str_trim p)) then (Inl (ValidationError prompt_required), s)
                   else (case b_models b of
                           JArr ms \<Rightarrow>
                             if length ms = 0 then (Inl (ValidationError model_required), s)
                             else (case test_models e p
                                          \<lparr>opt_temperature = temperature, opt_maxTokens = maxTokens\<rparr>
                                          ms s [] of
                                     (Inl u, s1) \<Rightarrow> internal_error e s1
                                   | (Inr rs, s1) \<Rightarrow>
                                       let sm = summarize (length ms) rs;
                                           (tid, s2) = Date_now e s1;
                                           (t, s3) = Date_now e s2
                                       in (Inr \<lparr>testId = tid, ok_prompt = p, ok_models = ms,
                                                ok_iterations = iterations, results = rs,
                                                ok_summary = sm, ok_timestamp = t\<rparr>, s3))
                         | _ \<Rightarrow> (Inl (ValidationError model_required), s))
               | _ \<Rightarrow> internal_error e s))"

text \<open>
  A request of the shape the data model gives \<open>PromptRequest\<close>: the prompt a string,
  the models an array of strings.
\<close>

definition prompt_request :: "jsstring \<Rightarrow> jsstring list \<Rightarrow> jsval \<Rightarrow> jsval \<Rightarrow> jsval \<Rightarrow> body" where
  "prompt_request p ids it tmp mt =
     \<lparr>b_prompt = JStr p, b_models = JArr (map JStr ids), b_iterations = it,
      b_temperature = tmp, b_maxTokens = mt\<rparr>"

section \<open>Reading a response\<close>

text \<open>The \<open>results\<close> array of a response; a 400 or 500 response has none.\<close>

definition results_of :: "(http_error + ok_body) \<times> state \<Rightarrow> model_result list" where
  "results_of x = (case fst x of Inl err \<Rightarrow> [] | Inr ok \<Rightarrow> results ok)"

text \<open>
  The specification's \<open>costTotal\<close> and \<open>tokensTotal\<close> of a result: the number stored under
  \<open>metadata.cost.total\<close> (the double that a stored text denotes) and
  \<open>metadata.tokens.total\<close>, 0 where the result has no such property.
\<close>

definition costTotal :: "model_result \<Rightarrow> number" where
  "costTotal r =
     (case cost (metadata r) of
        None \<Rightarrow> Num 0
      | Some c \<Rightarrow> (case cost_total c of NumberValue n \<Rightarrow> n | FixedText d \<Rightarrow> Num (fl d)))"

definition tokensTotal :: "model_result \<Rightarrow> int" where
  "tokensTotal r = (case tokens (metadata r) of None \<Rightarrow> 0 | Some t \<Rightarrow> tokens_total t)"

text \<open>The sum of a list of doubles, added from left to right in double arithmetic.\<close>

definition double_sum :: "rat list \<Rightarrow> rat" where
  "double_sum xs = foldl (\<lambda>a b. fl (a + b)) 0 xs"

text \<open>
  The specification's classifier: what the adapter log gains for one id. An id that
  contains \<open>gpt\<close> goes to the OpenAI adapter, another one that starts with \<open>claude-\<close>
  goes to the Anthropic adapter, any other id goes to none.
\<close>

definition invocation_of :: "jsstring \<Rightarrow> (service \<times> jsstring) list" where
  "invocation_of m =
     (if str_includes m (js ''gpt'') then [(OpenAIService, m)]
      else if str_startsWith m (js ''claude-'') then [(AnthropicService, m)]
      else [])"

section \<open>Example environments\<close>

text \<open>
  No credentials at all; and an OpenAI key whose remote API rejects every call. The
  random source always yields one half, the clock advances a second per reading.
\<close>

definition env_default :: env where
  "env_default =
     \<lparr>OPENAI_API_KEY = None, ANTHROPIC_API_KEY = None,
      random_src = (\<lambda>n. 1 / 2), clock_src = (\<lambda>n. 1700000000000 + 1000 * int n),
      create_src = (\<lambda>n rq. Inl (js ''no client''))\<rparr>"

definition env_rejecting :: env where
  "env_rejecting =
     \<lparr>OPENAI_API_KEY = Some (js ''sk-live''), ANTHROPIC_API_KEY = None,
      random_src = (\<lambda>n. 1 / 2), clock_src = (\<lambda>n. 1700000000000 + 1000 * int n),
      create_src = (\<lambda>n rq. Inl (js ''Rate limit exceeded''))\<rparr>"

text \<open>An OpenAI key whose remote API resolves every call with a reply without \<open>choices\<close>.\<close>

definition env_malformed :: env where
  "env_malformed =
     \<lparr>OPENAI_API_KEY = Some (js ''sk-live''), ANTHROPIC_API_KEY = None,
      random_src = (\<lambda>n. 1 / 2), clock_src = (\<lambda>n. 1700000000000 + 1000 * int n),
      create_src = (\<lambda>n rq. Inr \<lparr>choices = None, usage = None\<rparr>)\<rparr>"

text \<open>An Anthropic key and no OpenAI key.\<close>

definition env_anthropic_key :: env where
  "env_anthropic_key =
     \<lparr>OPENAI_API_KEY = None, ANTHROPIC_API_KEY = Some (js ''sk-ant-live''),
      random_src = (\<lambda>n. 3 / 32), clock_src = (\<lambda>n. 1700000000000 + 1000 * int n),
      create_src = (\<lambda>n rq. Inl (js ''no client''))\<rparr>"

definition state0 :: state where
  "state0 = \<lparr>random_ix = 0, clock_ix = 0, create_ix = 0, invocations = []\<rparr>"

section \<open>Numbers\<close>

text \<open>
  \<^const>\<open>exponent\<close> is the binary exponent of a positive rational, so \<^const>\<open>fl\<close> rounds a number
  of the normal range to an integer multiple of a power of two with a significand of 53 bits,
  and the result is within half a unit in the last place of the argument.
\<close>

lemma pow2_powi: "pow2 k = 2 powi k"
  by (simp add: pow2_def power_int_def field_simps)

lemma pow2_bitlen:
  assumes "0 < a"
  shows "pow2 (bitlen a - 1) \<le> of_int a" and "of_int a < pow2 (bitlen a)"
proof -
  from bitlen_bounds [OF assms] have lo: "2 ^ nat (bitlen a - 1) \<le> a" and hi: "a < 2 ^ nat (bitlen a)"
    by simp_all
  have pos: "0 < bitlen a"
    using assms bitlen_nonneg [of a] bitlen_eq_zero_iff [of a] by linarith
  have "(of_int (2 ^ nat (bitlen a - 1)) :: rat) \<le> of_int a" using lo by (simp only: of_int_le_iff)
  then show "pow2 (bitlen a - 1) \<le> of_int a" using pos by (simp add: pow2_def)
  have "(of_int a :: rat) < of_int (2 ^ nat (bitlen a))" using hi by (simp only: of_int_less_iff)
  then show "of_int a < pow2 (bitlen a)" using pos by (simp add: pow2_def)
qed

lemma exponent_bounds:
  assumes "0 < x"
  shows "pow2 (exponent x) \<le> x \<and> x < pow2 (exponent x + 1)"
proof -
  obtain a b where q: "quotient_of x = (a, b)" by force
  then have b: "0 < b" by (rule quotient_of_denom_pos)
  from q have x: "x = of_int a / of_int b" by (rule quotient_of_div)
  with assms b have a: "0 < a" by (simp add: zero_less_divide_iff)
  define k where "k = bitlen a - bitlen b"
  have bpos: "(0::rat) < of_int b" using b by simp
  have "x < pow2 (bitlen a) / pow2 (bitlen b - 1)"
  proof -
    have "x < pow2 (bitlen a) / of_int b"
      unfolding x using pow2_bitlen(2) [OF a] bpos by (simp add: divide_strict_right_mono)
    also have "\<dots> \<le> pow2 (bitlen a) / pow2 (bitlen b - 1)"
      using pow2_bitlen(1) [OF b] bpos by (intro divide_left_mono) (simp_all add: pow2_powi)
    finally show ?thesis .
  qed
  then have hi: "x < pow2 (k + 1)"
    by (simp add: pow2_powi k_def power_int_diff [symmetric] algebra_simps)
  have "pow2 (bitlen a - 1) / pow2 (bitlen b) < x"
  proof -
    have "pow2 (bitlen a - 1) / pow2 (bitlen b) < pow2 (bitlen a - 1) / of_int b"
      using pow2_bitlen(2) [OF b] bpos by (intro divide_strict_left_mono) (simp_all add: pow2_powi)
    also have "\<dots> \<le> x"
      unfolding x using pow2_bitlen(1) [OF a] bpos by (simp add: divide_right_mono)
    finally show ?thesis .
  qed
  then have lo: "pow2 (k - 1) < x"
    by (simp add: pow2_powi k_def power_int_diff [symmetric] algebra_simps)
  show ?thesis
  proof (cases "pow2 k \<le> x")
    case True
    then have "exponent x = k" by (simp add: exponent_def q k_def)
    with True hi show ?thesis by simp
  next
    case False
    then have "exponent x = k - 1" by (simp add: exponent_def q k_def)
    with False lo show ?thesis by simp
  qed
qed

lemma pow2_pos: "0 < pow2 k"
  by (simp add: pow2_powi)

lemma round_half_even_close: "\<bar>of_int (round_half_even y) - y\<bar> \<le> 1 / 2"
proof -
  have "of_int \<lfloor>y\<rfloor> \<le> y" and "y < of_int \<lfloor>y\<rfloor> + 1" by linarith+
  then show ?thesis by (auto simp: round_half_even_def Let_def abs_le_iff)
qed

lemma fl_close:
  "\<bar>fl x - x\<bar> \<le> pow2 (max (exponent \<bar>x\<bar> - 52) (- 1074)) / 2"
proof (cases "x = 0")
  case True
  then show ?thesis using pow2_pos [of "max (exponent \<bar>x\<bar> - 52) (- 1074)"] by (simp add: fl_def)
next
  case False
  define q where "q = max (exponent \<bar>x\<bar> - 52) (- 1074)"
  define n :: rat where "n = of_int (round_half_even (\<bar>x\<bar> / pow2 q))"
  have p: "0 < pow2 q" by (rule pow2_pos)
  have "\<bar>n - \<bar>x\<bar> / pow2 q\<bar> \<le> 1 / 2" unfolding n_def by (rule round_half_even_close)
  then have "\<bar>n - \<bar>x\<bar> / pow2 q\<bar> * pow2 q \<le> 1 / 2 * pow2 q"
    using p by (intro mult_right_mono) simp_all
  moreover have "\<bar>n - \<bar>x\<bar> / pow2 q\<bar> * pow2 q = \<bar>n * pow2 q - \<bar>x\<bar>\<bar>"
  proof -
    have "\<bar>n - \<bar>x\<bar> / pow2 q\<bar> * pow2 q = \<bar>(n - \<bar>x\<bar> / pow2 q) * pow2 q\<bar>"
      using p by (simp add: abs_mult)
    also have "(n - \<bar>x\<bar> / pow2 q) * pow2 q = n * pow2 q - \<bar>x\<bar>"
      using p by (simp add: field_simps)
    finally show ?thesis .
  qed
  ultimately have close: "\<bar>n * pow2 q - \<bar>x\<bar>\<bar> \<le> pow2 q / 2" by simp
  have flx: "fl x = sgn x * (n * pow2 q)"
    using False by (simp add: fl_def Let_def q_def n_def mult.assoc)
  have "fl x - x = sgn x * (n * pow2 q - \<bar>x\<bar>)"
    unfolding flx using mult_sgn_abs [of x] by (simp add: algebra_simps)
  then have "\<bar>fl x - x\<bar> = \<bar>n * pow2 q - \<bar>x\<bar>\<bar>"
    using False by (simp add: abs_mult abs_sgn_eq)
  with close show ?thesis by (simp add: q_def)
qed

lemma significand_range:
  assumes "x \<noteq> 0" and "- 1022 \<le> exponent \<bar>x\<bar>"
  shows "2 ^ 52 \<le> \<bar>x\<bar> / pow2 (exponent \<bar>x\<bar> - 52)"
    and "\<bar>x\<bar> / pow2 (exponent \<bar>x\<bar> - 52) < 2 ^ 53"
proof -
  from assms(1) have "0 < \<bar>x\<bar>" by simp
  from exponent_bounds [OF this] have lo: "pow2 (exponent \<bar>x\<bar>) \<le> \<bar>x\<bar>"
    and hi: "\<bar>x\<bar> < pow2 (exponent \<bar>x\<bar> + 1)" by simp_all
  have p: "0 < pow2 (exponent \<bar>x\<bar> - 52)" by (rule pow2_pos)
  have e1: "pow2 (exponent \<bar>x\<bar>) = 2 ^ 52 * pow2 (exponent \<bar>x\<bar> - 52)"
    by (simp add: pow2_powi power_int_diff)
  have e2: "pow2 (exponent \<bar>x\<bar> + 1) = 2 ^ 53 * pow2 (exponent \<bar>x\<bar> - 52)"
    by (simp add: pow2_powi power_int_diff power_int_add)
  from lo p show "2 ^ 52 \<le> \<bar>x\<bar> / pow2 (exponent \<bar>x\<bar> - 52)"
    unfolding e1 by (simp add: pos_le_divide_eq)
  from hi p show "\<bar>x\<bar> / pow2 (exponent \<bar>x\<bar> - 52) < 2 ^ 53"
    unfolding e2 by (simp add: pos_divide_less_eq)
qed

lemma fl_hundredth: "fl (1 / 100) = 5764607523034235 / 576460752303423488"
  by code_simp

section \<open>Strings\<close>

lemma str_startsWith_iff: "str_startsWith s p \<longleftrightarrow> (\<exists>r. s = p @ r)"
  by (induction s p rule: str_startsWith.induct) auto

lemma str_includes_iff: "str_includes s p \<longleftrightarrow> (\<exists>a b. s = a @ p @ b)"
proof (induction s)
  case Nil
  then show ?case by simp
next
  case (Cons c cs)
  show ?case
  proof
    assume "str_includes (c # cs) p"
    then consider "str_startsWith (c # cs) p" | "str_includes cs p" by auto
    then show "\<exists>a b. c # cs = a @ p @ b"
    proof cases
      case 1
      then obtain r where "c # cs = p @ r" by (auto simp: str_startsWith_iff)
      then have "c # cs = [] @ p @ r" by simp
      then show ?thesis by blast
    next
      case 2
      then obtain a b where "cs = a @ p @ b" using Cons.IH by blast
      then have "c # cs = (c # a) @ p @ b" by simp
      then show ?thesis by blast
    qed
  next
    assume "\<exists>a b. c # cs = a @ p @ b"
    then obtain a b where ab: "c # cs = a @ p @ b" by blast
    show "str_includes (c # cs) p"
    proof (cases a)
      case Nil
      with ab have "str_startsWith (c # cs) p" by (auto simp: str_startsWith_iff)
      then show ?thesis by simp
    next
      case (Cons x a')
      with ab have "cs = a' @ p @ b" by simp
      then have "str_includes cs p" using Cons.IH by blast
      then show ?thesis by simp
    qed
  qed
qed

lemma gpt_dash_includes_gpt: "str_startsWith m (js ''gpt-'') \<Longrightarrow> str_includes m (js ''gpt'')"
proof -
  assume "str_startsWith m (js ''gpt-'')"
  then obtain r where "m = js ''gpt-'' @ r" by (auto simp: str_startsWith_iff)
  then have "m = [] @ js ''gpt'' @ (js ''-'' @ r)" by (simp add: js_def)
  then show ?thesis unfolding str_includes_iff by blast
qed

lemma str_trim_empty_iff: "str_trim s = [] \<longleftrightarrow> (\<forall>c\<in>set s. is_whitespace c)"
proof -
  let ?d = "dropWhile is_whitespace s"
  have "str_trim s = [] \<longleftrightarrow> (\<forall>c\<in>set ?d. is_whitespace c)"
    by (simp add: str_trim_def dropWhile_eq_Nil_conv)
  also have "\<dots> \<longleftrightarrow> ?d = []"
  proof
    assume all: "\<forall>c\<in>set ?d. is_whitespace c"
    show "?d = []"
    proof (rule ccontr)
      assume ne: "?d \<noteq> []"
      then have "\<not> is_whitespace (hd ?d)" by (rule hd_dropWhile)
      moreover have "hd ?d \<in> set ?d" using ne by simp
      ultimately show False using all by blast
    qed
  qed (auto dest: set_dropWhileD)
  also have "\<dots> \<longleftrightarrow> (\<forall>c\<in>set s. is_whitespace c)"
    by (simp add: dropWhile_eq_Nil_conv)
  finally show ?thesis .
qed

section \<open>The adapters\<close>

lemma try_catch_Inr [simp]: "try_catch (Inr r, s) handler = (r, s)"
  by (simp add: try_catch_def)

lemma try_catch_Inl [simp]: "try_catch (Inl err, s) handler = handler err s"
  by (simp add: try_catch_def)

lemma Date_now_invocations [simp]: "invocations (snd (Date_now e s)) = invocations s"
  by (simp add: Date_now_def)

lemma Math_random_invocations [simp]: "invocations (snd (Math_random e s)) = invocations s"
  by (simp add: Math_random_def)

lemma create_completion_invocations [simp]: "invocations (snd (create_completion e s rq)) = invocations s"
  by (simp add: create_completion_def)

lemma openai_try_invocations: "invocations (snd (openai_try e s t p m opts)) = invocations s"
  by (simp add: openai_try_def Let_def case_prod_beta split: sum.splits option.splits)

lemma openai_try_shape:
  "fst (openai_try e s t p m opts) = Inr r \<Longrightarrow>
     success r \<and> model r = m \<and> provider r = js ''OpenAI'' \<and> prompt r = p \<and> error r = None
     \<and> errorCode r = None \<and> response r \<noteq> None \<and> tokens (metadata r) \<noteq> None \<and> cost (metadata r) \<noteq> None"
  by (auto simp add: openai_try_def Let_def case_prod_beta split: sum.splits option.splits if_splits)

lemma openai_catch_shape:
  "fst (openai_catch e s t p m msg) =
     \<lparr>success = False, model = m, provider = js ''OpenAI'', prompt = p, response = None,
      error = Some msg, errorCode = None,
      metadata = \<lparr>responseTime = clock_src e (clock_ix s) - t, tokens = None, cost = None,
        timestamp = clock_src e (Suc (clock_ix s))\<rparr>\<rparr>"
  by (simp add: openai_catch_def Date_now_def)

lemma openai_catch_invocations: "invocations (snd (openai_catch e s t p m msg)) = invocations s"
  by (simp add: openai_catch_def Date_now_def)

lemma openai_testPrompt_invocations:
  "invocations (snd (openai_testPrompt e s p m opts)) = invocations s @ [(OpenAIService, m)]"
proof -
  obtain t s1 where d: "Date_now e (invoked OpenAIService m s) = (t, s1)" by force
  then have i1: "invocations s1 = invocations s @ [(OpenAIService, m)]"
    by (auto simp: Date_now_def invoked_def)
  obtain x s2 where tr: "openai_try e s1 t p m opts = (x, s2)" by force
  have i2: "invocations s2 = invocations s1"
    using openai_try_invocations [of e s1 t p m opts] tr by simp
  show ?thesis
    using d tr i1 i2 by (cases x) (simp_all add: openai_testPrompt_def openai_catch_invocations)
qed

lemma openai_testPrompt_cases:
  obtains (ok) r s1 s2 where
      "openai_try e s1 (clock_src e (clock_ix s)) p m opts = (Inr r, s2)"
      "openai_testPrompt e s p m opts = (r, s2)"
  | (caught) msg s1 s2 where
      "openai_try e s1 (clock_src e (clock_ix s)) p m opts = (Inl msg, s2)"
      "openai_testPrompt e s p m opts = openai_catch e s2 (clock_src e (clock_ix s)) p m msg"
proof -
  obtain t s1 where d: "Date_now e (invoked OpenAIService m s) = (t, s1)" by force
  then have t: "t = clock_src e (clock_ix s)" by (auto simp: Date_now_def invoked_def)
  obtain x s2 where tr: "openai_try e s1 t p m opts = (x, s2)" by force
  show thesis
  proof (cases x)
    case (Inl msg)
    with d tr t show thesis by (intro caught [of s1 msg s2]) (simp_all add: openai_testPrompt_def)
  next
    case (Inr r)
    with d tr t show thesis by (intro ok [of s1 r s2]) (simp_all add: openai_testPrompt_def)
  qed
qed

lemma openai_testPrompt_shape:
  assumes r_def: "r = fst (openai_testPrompt e s p m opts)"
  shows "model r = m \<and> provider r = js ''OpenAI'' \<and> prompt r = p \<and> errorCode r = None
     \<and> (success r \<longrightarrow> error r = None \<and> response r \<noteq> None \<and> tokens (metadata r) \<noteq> None \<and> cost (metadata r) \<noteq> None)
     \<and> (\<not> success r \<longrightarrow> error r \<noteq> None \<and> response r = None \<and> tokens (metadata r) = None \<and> cost (metadata r) = None)"
proof (cases rule: openai_testPrompt_cases [where e=e and s=s and p=p and m=m and opts=opts])
  case (ok r' s1 s2)
  then have "fst (openai_try e s1 (clock_src e (clock_ix s)) p m opts) = Inr r'" by simp
  from openai_try_shape [OF this] ok(2) show ?thesis by (simp add: r_def)
next
  case (caught msg s1 s2)
  then show ?thesis by (simp add: r_def openai_catch_shape)
qed

lemma anthropic_try_Inr:
  "\<exists>r s'. anthropic_try e s t p m opts = (Inr r, s') \<and> success r \<and> model r = m
     \<and> provider r = js ''Anthropic'' \<and> prompt r = p \<and> error r = None \<and> errorCode r = None
     \<and> response r \<noteq> None \<and> tokens (metadata r) \<noteq> None \<and> cost (metadata r) \<noteq> None
     \<and> invocations s' = invocations s"
  by (simp add: anthropic_try_def Let_def case_prod_beta Date_now_def Math_random_def)

lemma anthropic_testPrompt_shape:
  assumes r_def: "r = fst (anthropic_testPrompt e s p m opts)"
  shows "success r \<and> model r = m \<and> provider r = js ''Anthropic'' \<and> prompt r = p
     \<and> error r = None \<and> errorCode r = None \<and> response r \<noteq> None
     \<and> tokens (metadata r) \<noteq> None \<and> cost (metadata r) \<noteq> None"
proof -
  obtain t s1 where d: "Date_now e (invoked AnthropicService m s) = (t, s1)" by force
  from anthropic_try_Inr [of e s1 t p m opts] obtain r' s' where
    tr: "anthropic_try e s1 t p m opts = (Inr r', s')" and
    sh: "success r' \<and> model r' = m \<and> provider r' = js ''Anthropic'' \<and> prompt r' = p
     \<and> error r' = None \<and> errorCode r' = None \<and> response r' \<noteq> None
     \<and> tokens (metadata r') \<noteq> None \<and> cost (metadata r') \<noteq> None" by blast
  from d tr have "r = r'" by (simp add: r_def anthropic_testPrompt_def)
  with sh show ?thesis by simp
qed

lemma anthropic_testPrompt_invocations:
  "invocations (snd (anthropic_testPrompt e s p m opts)) = invocations s @ [(AnthropicService, m)]"
proof -
  obtain t s1 where d: "Date_now e (invoked AnthropicService m s) = (t, s1)" by force
  then have i1: "invocations s1 = invocations s @ [(AnthropicService, m)]"
    by (auto simp: Date_now_def invoked_def)
  from anthropic_try_Inr [of e s1 t p m opts] obtain r' s' where
    tr: "anthropic_try e s1 t p m opts = (Inr r', s')" and "invocations s' = invocations s1" by blast
  with d i1 show ?thesis by (simp add: anthropic_testPrompt_def)
qed

lemma unsupported_result_eq:
  "unsupported_result e s p m =
     (\<lparr>success = False, model = m, provider = js ''Unknown'', prompt = p,
       response = None, error = Some (js ''Unsupported model: '' @ m),
       errorCode = Some (js ''UNSUPPORTED_MODEL''),
       metadata = \<lparr>responseTime = 0, tokens = None, cost = None, timestamp = clock_src e (clock_ix s)\<rparr>\<rparr>,
      s\<lparr>clock_ix := Suc (clock_ix s)\<rparr>)"
  by (simp add: unsupported_result_def Date_now_def)

section \<open>The loop\<close>

lemma test_model_gpt:
  "str_includes m (js ''gpt'') \<Longrightarrow> test_model e s p opts m = openai_testPrompt e s p m opts"
  by (simp add: test_model_def)

lemma test_model_claude:
  "\<not> str_includes m (js ''gpt'') \<Longrightarrow> str_startsWith m (js ''claude-'') \<Longrightarrow>
     test_model e s p opts m = anthropic_testPrompt e s p m opts"
  using gpt_dash_includes_gpt [of m] by (auto simp add: test_model_def)

lemma test_model_other:
  "\<not> str_includes m (js ''gpt'') \<Longrightarrow> \<not> str_startsWith m (js ''claude-'') \<Longrightarrow>
     test_model e s p opts m = unsupported_result e s p m"
  using gpt_dash_includes_gpt [of m] by (auto simp add: test_model_def)

lemma test_model_invocations:
  "invocations (snd (test_model e s p opts m)) = invocations s @ invocation_of m"
proof (cases "str_includes m (js ''gpt'')")
  case True
  then show ?thesis
    by (simp add: test_model_gpt invocation_of_def openai_testPrompt_invocations)
next
  case False
  then show ?thesis
    by (cases "str_startsWith m (js ''claude-'')")
       (simp_all add: test_model_claude test_model_other invocation_of_def
          anthropic_testPrompt_invocations unsupported_result_eq)
qed

lemma test_models_strings:
  assumes Q: "\<And>s m. Q m (fst (test_model e s p opts m))"
  shows "\<exists>rs s'. test_models e p opts (map JStr ids) s acc = (Inr (acc @ rs), s')
           \<and> list_all2 Q ids rs
           \<and> invocations s' = invocations s @ concat (map invocation_of ids)"
proof (induction ids arbitrary: s acc)
  case Nil
  then show ?case by simp
next
  case (Cons m ids)
  obtain r s1 where tm: "test_model e s p opts m = (r, s1)" by force
  from Cons.IH [of s1 "acc @ [r]"] obtain rs s' where
    run: "test_models e p opts (map JStr ids) s1 (acc @ [r]) = (Inr ((acc @ [r]) @ rs), s')"
    and all: "list_all2 Q ids rs"
    and inv: "invocations s' = invocations s1 @ concat (map invocation_of ids)" by blast
  have q: "Q m r" using Q [of m s] tm by simp
  have i1: "invocations s1 = invocations s @ invocation_of m"
    using test_model_invocations [of e s p opts m] tm by simp
  have "test_models e p opts (map JStr (m # ids)) s acc = (Inr (acc @ (r # rs)), s')"
    using tm run by simp
  moreover have "list_all2 Q (m # ids) (r # rs)" using q all by simp
  moreover have "invocations s' = invocations s @ concat (map invocation_of (m # ids))"
    using inv i1 by simp
  ultimately show ?case by blast
qed

lemma post_prompts_test_ok:
  assumes p: "str_trim p \<noteq> []" and ids: "ids \<noteq> []"
    and Q: "\<And>s m opts. Q m (fst (test_model e s p opts m))"
  shows "\<exists>ok s'. post_prompts_test e s (prompt_request p ids it tmp mt) = (Inr ok, s')
           \<and> list_all2 Q ids (results ok)
           \<and> ok_summary ok = summarize (length ids) (results ok)
           \<and> invocations s' = invocations s @ concat (map invocation_of ids)"
proof -
  let ?opts = "\<lparr>opt_temperature = default_to (JNum (fl (7 / 10))) tmp, opt_maxTokens = default_to (JNum 500) mt\<rparr>"
  from test_models_strings [of Q e p ?opts ids s "[]"] Q obtain rs s1 where
    run: "test_models e p ?opts (map JStr ids) s [] = (Inr rs, s1)"
    and all: "list_all2 Q ids rs"
    and inv: "invocations s1 = invocations s @ concat (map invocation_of ids)" by auto
  have pne: "p \<noteq> []" using p by (auto simp: str_trim_def)
  show ?thesis
    using p ids pne run all inv
    by (simp add: post_prompts_test_def prompt_request_def Let_def Date_now_def)
qed

section \<open>The summary\<close>

lemma foldl_add_sum_list:
  fixes a :: "'a::comm_monoid_add"
  shows "foldl (\<lambda>sum r. sum + f r) a xs = a + sum_list (map f xs)"
  by (induction xs arbitrary: a) (simp_all add: add.assoc)

lemma or0_Some [simp]: "or0 (Some n) = n"
  by (simp add: or0_def)

lemma tokens_of_eq: "tokens_of r = tokensTotal r"
  by (simp add: tokens_of_def tokensTotal_def split: option.splits)

lemma cost_of_Num: "costTotal r = Num x \<Longrightarrow> cost_of r = Num x"
proof (cases "cost (metadata r)")
  case None
  then show "costTotal r = Num x \<Longrightarrow> cost_of r = Num x"
    by (simp add: cost_of_def costTotal_def)
next
  case (Some c)
  assume ct: "costTotal r = Num x"
  show "cost_of r = Num x"
  proof (cases "cost_total c")
    case (NumberValue n)
    with Some ct have "n = Num x" by (simp add: costTotal_def)
    with Some NumberValue show ?thesis by (simp add: cost_of_def)
  next
    case (FixedText d)
    with Some ct show ?thesis by (simp add: cost_of_def costTotal_def)
  qed
qed

lemma fl_zero: "fl 0 = 0"
  by (simp add: fl_def)

lemma foldl_num_add:
  "map costTotal rs = map Num xs \<Longrightarrow>
     foldl (\<lambda>sum r. num_add sum (cost_of r)) (Num a) rs = Num (foldl (\<lambda>a b. fl (a + b)) a xs)"
proof (induction rs arbitrary: a xs)
  case Nil
  then show ?case by simp
next
  case (Cons r rs)
  then obtain x xs' where xs: "xs = x # xs'" and x: "costTotal r = Num x"
    and rest: "map costTotal rs = map Num xs'" by (cases xs) auto
  from x have "cost_of r = Num x" by (rule cost_of_Num)
  with Cons.IH [OF rest, of "fl (a + x)"] xs show ?case by simp
qed

lemma responseTime_of_eq: "responseTime_of r = responseTime (metadata r)"
  by (simp add: responseTime_of_def)

lemma floor_half: "\<lfloor>1 / 2 :: rat\<rfloor> = 0"
  by (simp add: floor_eq_iff)

lemma toFixed6_zero: "toFixed6 0 = 0"
  by (simp add: toFixed6_def floor_half)

lemma toFixed6_grid: "\<exists>k::int. toFixed6 x = of_int k / 1000000"
proof (cases "x < 0")
  case True
  then have "toFixed6 x = of_int (- \<lfloor>- x * 1000000 + 1 / 2\<rfloor>) / 1000000"
    by (simp add: toFixed6_def)
  then show ?thesis by blast
next
  case False
  then have "toFixed6 x = of_int \<lfloor>x * 1000000 + 1 / 2\<rfloor> / 1000000"
    by (simp add: toFixed6_def)
  then show ?thesis by blast
qed

lemma half_floor_close:
  fixes y :: rat
  shows "\<bar>of_int \<lfloor>y + 1 / 2\<rfloor> - y\<bar> \<le> 1 / 2"
  using of_int_round_abs_le [of y] by (simp add: round_def)

lemma toFixed6_close: "\<bar>toFixed6 x - x\<bar> \<le> 1 / 2000000"
proof (cases "x < 0")
  case True
  define n :: rat where "n = of_int \<lfloor>- x * 1000000 + 1 / 2\<rfloor>"
  have "\<bar>n - (- x * 1000000)\<bar> \<le> 1 / 2"
    unfolding n_def by (rule half_floor_close)
  then have lo: "- (1 / 2) \<le> n + x * 1000000" and hi: "n + x * 1000000 \<le> 1 / 2"
    by linarith+
  have eq: "toFixed6 x - x = - ((n + x * 1000000) / 1000000)"
    using True by (simp add: toFixed6_def n_def field_simps)
  have "- (1 / 2000000) \<le> (n + x * 1000000) / 1000000"
    using lo by (simp add: field_simps)
  moreover have "(n + x * 1000000) / 1000000 \<le> 1 / 2000000"
    using hi by (simp add: field_simps)
  ultimately show ?thesis unfolding eq by linarith
next
  case False
  define n :: rat where "n = of_int \<lfloor>x * 1000000 + 1 / 2\<rfloor>"
  have "\<bar>n - x * 1000000\<bar> \<le> 1 / 2"
    unfolding n_def by (rule half_floor_close)
  then have lo: "- (1 / 2) \<le> n - x * 1000000" and hi: "n - x * 1000000 \<le> 1 / 2"
    by linarith+
  have eq: "toFixed6 x - x = (n - x * 1000000) / 1000000"
    using False by (simp add: toFixed6_def n_def field_simps)
  have "- (1 / 2000000) \<le> (n - x * 1000000) / 1000000"
    using lo by (simp add: field_simps)
  moreover have "(n - x * 1000000) / 1000000 \<le> 1 / 2000000"
    using hi by (simp add: field_simps)
  ultimately show ?thesis unfolding eq by linarith
qed

lemma summarize_fields:
  "totalModels (summarize n rs) = n"
  "successfulModels (summarize n rs) = length (filter success rs)"
  "failedModels (summarize n rs) = length (filter (\<lambda>r. \<not> success r) rs)"
  "totalTokens (summarize n rs) = (\<Sum>r\<leftarrow>filter success rs. tokensTotal r)"
  "avgResponseTime (summarize n rs) =
     (if filter success rs = [] then 0
      else round (of_int (\<Sum>r\<leftarrow>filter success rs. responseTime (metadata r))
                  / of_nat (length (filter success rs)) :: rat))"
  by (simp_all add: summarize_def Let_def foldl_add_sum_list tokens_of_eq
      responseTime_of_eq Math_round_def round_def cong: map_cong)

lemma summarize_totalCost:
  assumes "map costTotal (filter success rs) = map Num xs"
  shows "totalCost (summarize n rs) = Num (fl (toFixed6 (double_sum xs)))"
  using foldl_num_add [OF assms, of 0]
  by (simp add: summarize_def Let_def double_sum_def)

lemma summarize_no_success:
  assumes "filter success rs = []"
  shows "totalCost (summarize n rs) = Num 0" and "avgResponseTime (summarize n rs) = 0"
  using assms by (simp_all add: summarize_def Let_def toFixed6_zero fl_zero)

section \<open>Facts about one result\<close>

lemma openai_mock_success:
  assumes "\<not> openai e"
  shows "success (fst (openai_testPrompt e s p m opts))"
proof (cases rule: openai_testPrompt_cases [where e=e and s=s and p=p and m=m and opts=opts])
  case (ok r s1 s2)
  then have "fst (openai_try e s1 (clock_src e (clock_ix s)) p m opts) = Inr r" by simp
  from openai_try_shape [OF this] ok(2) show ?thesis by simp
next
  case (caught msg s1 s2)
  with assms show ?thesis by (simp add: openai_try_def Let_def case_prod_beta)
qed

lemma test_model_facts:
  assumes r: "r = fst (test_model e s p opts m)"
  shows "model r = m \<and> prompt r = p
    \<and> (str_includes m (js ''gpt'') \<longrightarrow> provider r = js ''OpenAI'' \<and> errorCode r = None)
    \<and> (\<not> str_includes m (js ''gpt'') \<and> str_startsWith m (js ''claude-'') \<longrightarrow>
         provider r = js ''Anthropic'' \<and> success r \<and> errorCode r = None)
    \<and> (\<not> str_includes m (js ''gpt'') \<and> \<not> str_startsWith m (js ''claude-'') \<longrightarrow>
         provider r = js ''Unknown'' \<and> \<not> success r
         \<and> errorCode r = Some (js ''UNSUPPORTED_MODEL'') \<and> responseTime (metadata r) = 0)
    \<and> (success r \<longrightarrow> error r = None \<and> response r \<noteq> None
         \<and> tokens (metadata r) \<noteq> None \<and> cost (metadata r) \<noteq> None)
    \<and> (\<not> success r \<longrightarrow> error r \<noteq> None \<and> response r = None
         \<and> tokens (metadata r) = None \<and> cost (metadata r) = None)"
proof (cases "str_includes m (js ''gpt'')")
  case True
  then have "r = fst (openai_testPrompt e s p m opts)" using r by (simp add: test_model_gpt)
  from openai_testPrompt_shape [OF this] True show ?thesis by simp
next
  case False
  show ?thesis
  proof (cases "str_startsWith m (js ''claude-'')")
    case True
    with False have "r = fst (anthropic_testPrompt e s p m opts)"
      using r by (simp add: test_model_claude)
    from anthropic_testPrompt_shape [OF this] True False show ?thesis by simp
  next
    case nc: False
    with False have "r = fst (unsupported_result e s p m)" using r by (simp add: test_model_other)
    with False nc show ?thesis by (simp add: unsupported_result_eq)
  qed
qed

lemma list_all2_field_eq: "list_all2 (\<lambda>m r. f r = m) ids rs \<Longrightarrow> map f rs = ids"
  by (induction rule: list_all2_induct) simp_all

section \<open>Further facts used by the claims\<close>

lemma gpt_not_prototype_key:
  "str_includes m (js ''gpt'') \<Longrightarrow> m \<notin> set Object_prototype_keys"
  by (auto simp: Object_prototype_keys_def js_def)

lemma token_cost_Num: "\<exists>x. token_cost n (Some c) = Num x"
  by (simp add: token_cost_def)

lemma openai_try_cost:
  assumes "fst (openai_try e s t p m opts) = Inr r" and "m \<notin> set Object_prototype_keys"
  shows "\<exists>x. costTotal r = Num x"
proof (cases "openai e")
  case False
  with assms(1) show ?thesis
    by (auto simp: openai_try_def Let_def case_prod_beta costTotal_def)
next
  case True
  from assms(2) obtain pin pout where pr: "openai_pricing m = Prices pin pout"
    by (cases "map_of openai_MODEL_PRICING m") (auto simp: openai_pricing_def)
  from True assms(1) pr show ?thesis
    by (auto simp: openai_try_def Let_def case_prod_beta costTotal_def token_cost_def
        split: sum.splits option.splits)
qed

lemma openai_testPrompt_cost:
  assumes "m \<notin> set Object_prototype_keys"
  shows "\<exists>x. costTotal (fst (openai_testPrompt e s p m opts)) = Num x"
proof (cases rule: openai_testPrompt_cases [where e=e and s=s and p=p and m=m and opts=opts])
  case (ok r s1 s2)
  then have "fst (openai_try e s1 (clock_src e (clock_ix s)) p m opts) = Inr r" by simp
  from openai_try_cost [OF this assms] ok(2) show ?thesis by simp
next
  case (caught msg s1 s2)
  then show ?thesis by (simp add: openai_catch_shape costTotal_def)
qed

lemma anthropic_testPrompt_cost:
  "\<exists>x. costTotal (fst (anthropic_testPrompt e s p m opts)) = Num x"
  by (simp add: anthropic_testPrompt_def anthropic_try_def Let_def case_prod_beta costTotal_def)

lemma test_model_cost: "\<exists>x. costTotal (fst (test_model e s p opts m)) = Num x"
proof (cases "str_includes m (js ''gpt'')")
  case True
  then have "m \<notin> set Object_prototype_keys" by (rule gpt_not_prototype_key)
  from openai_testPrompt_cost [OF this, of e s p opts] True show ?thesis
    by (simp add: test_model_gpt)
next
  case False
  show ?thesis
  proof (cases "str_startsWith m (js ''claude-'')")
    case True
    with False anthropic_testPrompt_cost [of e s p m opts] show ?thesis
      by (simp add: test_model_claude)
  next
    case nc: False
    with False show ?thesis
      by (simp add: test_model_other unsupported_result_eq costTotal_def)
  qed
qed

lemma map_Num_ex: "(\<forall>r\<in>set rs. \<exists>x. f r = Num x) \<Longrightarrow> \<exists>xs. map f rs = map Num xs"
proof (induction rs)
  case Nil
  then show ?case by simp
next
  case (Cons r rs)
  then obtain x xs where "f r = Num x" and "map f rs = map Num xs" by auto
  then have "map f (r # rs) = map Num (x # xs)" by simp
  then show ?case by blast
qed

lemma openai_simulated:
  assumes "\<not> openai e"
  shows "openai_testPrompt e s p m opts =
     (\<lparr>success = True, model = m, provider = js ''OpenAI'', prompt = p,
       response = Some (js ''Mock response from '' @ m
         @ js '': This would be a real AI response if you had configured your OpenAI API key. Your prompt was: ''
         @ prompt_excerpt p),
       error = None, errorCode = None,
       metadata = \<lparr>responseTime = Math_round (fl (1000 + fl (random_src e (random_ix s) * 1500))),
         tokens = Some \<lparr>tokens_prompt = None, tokens_completion = None,
           tokens_total = Math_floor (fl (random_src e (random_ix s + 1) * 200)) + 50\<rparr>,
         cost = Some \<lparr>cost_input = None, cost_output = None,
           cost_total = FixedText (toFixed6 (fl (random_src e (random_ix s + 2) * fl (1 / 100))))\<rparr>,
         timestamp = clock_src e (clock_ix s + 1)\<rparr>\<rparr>,
      \<lparr>random_ix = random_ix s + 3, clock_ix = clock_ix s + 2, create_ix = create_ix s,
       invocations = invocations s @ [(OpenAIService, m)]\<rparr>)"
  using assms
  by (cases s)
     (simp add: openai_testPrompt_def openai_try_def Date_now_def Math_random_def invoked_def)

lemma anthropic_simulated:
  "anthropic_testPrompt e s p m opts =
     (\<lparr>success = True, model = m, provider = js ''Anthropic'', prompt = p,
       response = Some
         (if anthropic e then
            js ''Mock Claude response: I understand you want me to respond to '' @ [0x22]
            @ substring0 30 p @ js ''...'' @ [0x22]
            @ js '' - this would be a real Claude response with proper API integration.''
          else
            js ''Mock response from '' @ m
            @ js '': This would be a real Claude response if you had configured your Anthropic API key. Your prompt was: ''
            @ prompt_excerpt p),
       error = None, errorCode = None,
       metadata = \<lparr>responseTime = Math_round (fl (1200 + fl (random_src e (random_ix s) * 1800))),
         tokens = Some \<lparr>tokens_prompt = None, tokens_completion = None,
           tokens_total = Math_floor (fl (random_src e (random_ix s + 1) * 250)) + 60\<rparr>,
         cost = Some \<lparr>cost_input = None, cost_output = None,
           cost_total = FixedText (toFixed6 (fl (random_src e (random_ix s + 2) * fl (2 / 100))))\<rparr>,
         timestamp = clock_src e (clock_ix s + 1)\<rparr>\<rparr>,
      \<lparr>random_ix = random_ix s + 3, clock_ix = clock_ix s + 2, create_ix = create_ix s,
       invocations = invocations s @ [(AnthropicService, m)]\<rparr>)"
  by (cases s)
     (simp add: anthropic_testPrompt_def anthropic_try_def Date_now_def Math_random_def invoked_def)

lemma catch_results:
  "fst (openai_catch e s2 t p m msg) =
     \<lparr>success = False, model = m, provider = js ''OpenAI'', prompt = p, response = None,
      error = Some msg, errorCode = None,
      metadata = \<lparr>responseTime = clock_src e (clock_ix s2) - t, tokens = None, cost = None,
        timestamp = clock_src e (clock_ix s2 + 1)\<rparr>\<rparr>"
  "fst (anthropic_catch e s2 t p m msg) =
     \<lparr>success = False, model = m, provider = js ''Anthropic'', prompt = p, response = None,
      error = Some msg, errorCode = None,
      metadata = \<lparr>responseTime = clock_src e (clock_ix s2) - t, tokens = None, cost = None,
        timestamp = clock_src e (clock_ix s2 + 1)\<rparr>\<rparr>"
  by (simp_all add: openai_catch_def anthropic_catch_def Date_now_def)

lemma testPrompt_try_catch:
  "openai_testPrompt e s p m opts =
     try_catch (openai_try e (snd (Date_now e (invoked OpenAIService m s)))
                  (fst (Date_now e (invoked OpenAIService m s))) p m opts)
       (\<lambda>msg s2. openai_catch e s2 (fst (Date_now e (invoked OpenAIService m s))) p m msg)"
  "anthropic_testPrompt e s p m opts =
     try_catch (anthropic_try e (snd (Date_now e (invoked AnthropicService m s)))
                  (fst (Date_now e (invoked AnthropicService m s))) p m opts)
       (\<lambda>msg s2. anthropic_catch e s2 (fst (Date_now e (invoked AnthropicService m s))) p m msg)"
  by (simp_all add: openai_testPrompt_def anthropic_testPrompt_def case_prod_beta)

lemma openai_rejected:
  assumes "openai e"
    and "create_src e (create_ix s) (completion_request p m opts) = Inl msg"
  shows "fst (openai_testPrompt e s p m opts) =
     \<lparr>success = False, model = m, provider = js ''OpenAI'', prompt = p, response = None,
      error = Some msg, errorCode = None,
      metadata = \<lparr>responseTime = clock_src e (Suc (clock_ix s)) - clock_src e (clock_ix s),
        tokens = None, cost = None, timestamp = clock_src e (Suc (Suc (clock_ix s)))\<rparr>\<rparr>"
  using assms
  by (simp add: openai_testPrompt_def openai_try_def create_completion_def Date_now_def
      invoked_def openai_catch_def)

lemma openai_no_choices:
  assumes "openai e"
    and "create_src e (create_ix s) (completion_request p m opts) = Inr resp"
    and "choices resp = None"
  shows "fst (openai_testPrompt e s p m opts) =
     \<lparr>success = False, model = m, provider = js ''OpenAI'', prompt = p, response = None,
      error = Some TypeError_message, errorCode = None,
      metadata = \<lparr>responseTime = clock_src e (Suc (Suc (clock_ix s))) - clock_src e (clock_ix s),
        tokens = None, cost = None, timestamp = clock_src e (Suc (Suc (Suc (clock_ix s))))\<rparr>\<rparr>"
  using assms
  by (simp add: openai_testPrompt_def openai_try_def create_completion_def Date_now_def
      invoked_def openai_catch_def)

lemma non_string_prompt:
  assumes "truthy v" and "\<forall>p. v \<noteq> JStr p"
  shows "post_prompts_test e s (b\<lparr>b_prompt := v\<rparr>)
           = (Inl (InternalError (clock_src e (clock_ix s))), s\<lparr>clock_ix := Suc (clock_ix s)\<rparr>)"
  using assms by (cases v) (simp_all add: post_prompts_test_def internal_error_def Date_now_def)

lemma non_string_model_id:
  assumes "str_trim p \<noteq> []" and "\<forall>m. v \<noteq> JStr m"
  shows "post_prompts_test e s (b\<lparr>b_prompt := JStr p, b_models := JArr (v # ms)\<rparr>)
           = (Inl (InternalError (clock_src e (clock_ix s))), s\<lparr>clock_ix := Suc (clock_ix s)\<rparr>)"
proof -
  have "p \<noteq> []" using assms(1) by (auto simp: str_trim_def)
  moreover have "test_models e p opts (v # ms) s [] = (Inl (), s)" for opts
    using assms(2) by (cases v) simp_all
  ultimately show ?thesis using assms(1)
    by (simp add: post_prompts_test_def internal_error_def Date_now_def)
qed

lemma typeerror_text: "length TypeError_message = 49"
  by (simp add: TypeError_message_def js_def)

lemma post_prompts_test_results:
  assumes "str_trim p \<noteq> []" and "ids \<noteq> []"
  shows "\<exists>ok s'. post_prompts_test e s (prompt_request p ids it tmp mt) = (Inr ok, s')
           \<and> list_all2 (\<lambda>m r. \<exists>s0 opts. r = fst (test_model e s0 p opts m)) ids (results ok)"
proof -
  have "\<And>s m opts. \<exists>s0 opts'. fst (test_model e s p opts m) = fst (test_model e s0 p opts' m)"
    by blast
  from post_prompts_test_ok
    [of p ids "\<lambda>m r. \<exists>s0 opts. r = fst (test_model e s0 p opts m)" e s it tmp mt, OF assms this]
  show ?thesis by blast
qed

lemma no_openai_default: "\<not> openai env_default"
  by (simp add: openai_def client_of_def env_default_def)

lemma hello_trim: "str_trim (js ''Hello'') \<noteq> []"
  by code_simp

lemma env_default_random: "random_src env_default k = 1 / 2"
  by (simp add: env_default_def)

lemma list_all2_one:
  assumes "list_all2 Q [a] rs"
  obtains r0 where "rs = [r0]" and "Q a r0"
  using assms by (auto simp: list_all2_Cons1)

lemma list_all2_two:
  assumes "list_all2 Q [a, b] rs"
  obtains r0 r1 where "rs = [r0, r1]" and "Q a r0" and "Q b r1"
  using assms by (auto simp: list_all2_Cons1)

lemma list_all2_three:
  assumes "list_all2 Q [a, b, c] rs"
  obtains r0 r1 r2 where "rs = [r0, r1, r2]" and "Q a r0" and "Q b r1" and "Q c r2"
  using assms by (auto simp: list_all2_Cons1)

lemma post_prompts_test_plain:
  assumes "str_trim p \<noteq> []" and "ids \<noteq> []"
  shows "\<exists>ok s'. post_prompts_test e s (prompt_request p ids it tmp mt) = (Inr ok, s')
           \<and> length (results ok) = length ids
           \<and> ok_summary ok = summarize (length ids) (results ok)"
proof -
  from post_prompts_test_ok [of p ids "\<lambda>m r. True" e s it tmp mt, OF assms]
  obtain ok s' where
    "post_prompts_test e s (prompt_request p ids it tmp mt) = (Inr ok, s')"
    "list_all2 (\<lambda>m r. True) ids (results ok)"
    "ok_summary ok = summarize (length ids) (results ok)" by blast
  then show ?thesis by (auto dest: list_all2_lengthD)
qed

lemma invocation_of_snd: "(sv, m) \<in> set (invocation_of m') \<Longrightarrow> m = m' \<and> invocation_of m' \<noteq> []"
  by (auto simp: invocation_of_def split: if_splits)

lemma post_prompts_test_costs:
  assumes "str_trim p \<noteq> []" and "ids \<noteq> []"
  shows "\<exists>ok s' xs. post_prompts_test e s (prompt_request p ids it tmp mt) = (Inr ok, s')
           \<and> ok_summary ok = summarize (length ids) (results ok)
           \<and> map costTotal (filter success (results ok)) = map Num xs"
proof -
  have "\<And>s m opts. \<exists>x. costTotal (fst (test_model e s p opts m)) = Num x"
    by (rule test_model_cost)
  from post_prompts_test_ok [of p ids "\<lambda>m r. \<exists>x. costTotal r = Num x" e s it tmp mt, OF assms this]
  obtain ok s' where
    run: "post_prompts_test e s (prompt_request p ids it tmp mt) = (Inr ok, s')"
    and all: "list_all2 (\<lambda>m r. \<exists>x. costTotal r = Num x) ids (results ok)"
    and sm: "ok_summary ok = summarize (length ids) (results ok)" by blast
  from all have "\<forall>r\<in>set (results ok). \<exists>x. costTotal r = Num x"
    by (auto simp: list_all2_conv_all_nth in_set_conv_nth)
  then have "\<forall>r\<in>set (filter success (results ok)). \<exists>x. costTotal r = Num x" by simp
  then obtain xs where "map costTotal (filter success (results ok)) = map Num xs"
    using map_Num_ex by blast
  with run sm show ?thesis by blast
qed

lemma env_default_values:
  "Math_floor (fl (1 / 2 * 200)) + 50 = 150"
  "Math_round (fl (1000 + fl (1 / 2 * 1500))) = 1750"
  by code_simp+

lemma env_rejecting_openai: "openai env_rejecting"
  by (simp add: openai_def client_of_def env_rejecting_def js_def)

lemma env_rejecting_create: "create_src env_rejecting k rq = Inl (js ''Rate limit exceeded'')"
  by (simp add: env_rejecting_def)

lemma model_id_facts:
  "str_includes (js ''gpt-4'') (js ''gpt'')"
  "str_includes (js ''gpt-3.5-turbo'') (js ''gpt'')"
  "str_includes (js ''claude-gpt'') (js ''gpt'')"
  "str_startsWith (js ''claude-gpt'') (js ''claude-'')"
  "\<not> str_includes (js ''claude-3-opus-20240229'') (js ''gpt'')"
  "str_startsWith (js ''claude-3-opus-20240229'') (js ''claude-'')"
  "\<not> str_includes (js ''unknown-model'') (js ''gpt'')"
  "\<not> str_startsWith (js ''unknown-model'') (js ''claude-'')"
  by code_simp+

lemma env_malformed_openai: "openai env_malformed"
  by (simp add: openai_def client_of_def env_malformed_def js_def)

lemma env_malformed_create: "create_src env_malformed k rq = Inr \<lparr>choices = None, usage = None\<rparr>"
  by (simp add: env_malformed_def)

lemma catch_pairs:
  "openai_catch e s2 t p m msg =
     (\<lparr>success = False, model = m, provider = js ''OpenAI'', prompt = p, response = None,
       error = Some msg, errorCode = None,
       metadata = \<lparr>responseTime = clock_src e (clock_ix s2) - t, tokens = None, cost = None,
         timestamp = clock_src e (clock_ix s2 + 1)\<rparr>\<rparr>,
      s2\<lparr>clock_ix := clock_ix s2 + 2\<rparr>)"
  "anthropic_catch e s2 t p m msg =
     (\<lparr>success = False, model = m, provider = js ''Anthropic'', prompt = p, response = None,
       error = Some msg, errorCode = None,
       metadata = \<lparr>responseTime = clock_src e (clock_ix s2) - t, tokens = None, cost = None,
         timestamp = clock_src e (clock_ix s2 + 1)\<rparr>\<rparr>,
      s2\<lparr>clock_ix := clock_ix s2 + 2\<rparr>)"
  by (simp_all add: openai_catch_def anthropic_catch_def Date_now_def)

lemma env_anthropic_key_values:
  "Math_round (fl (1000 + fl (3 / 32 * 1500))) = 1141"
  "Math_floor (fl (3 / 32 * 200)) + 50 = 68"
  "toFixed6 (fl (3 / 32 * fl (1 / 100))) = 937 / 1000000"
  "Math_round (fl (1200 + fl (3 / 32 * 1800))) = 1369"
  "Math_floor (fl (3 / 32 * 250)) + 60 = 83"
  "toFixed6 (fl (3 / 32 * fl (2 / 100))) = 1875 / 1000000"
  by code_simp+

lemma env_anthropic_key_clients:
  "\<not> openai env_anthropic_key" "anthropic env_anthropic_key" "\<not> anthropic env_default"
  by (simp_all add: openai_def anthropic_def client_of_def env_anthropic_key_def env_default_def js_def)

section \<open>The claims\<close>

text \<open>
  C1. For every request with a prompt that is non-empty after trimming and a non-empty
  list of model ids, the handler answers 200 with exactly one result per requested
  id, in the order of the input list.
\<close>

theorem dispatch_results_in_order:
  assumes "str_trim p \<noteq> []" and "ids \<noteq> []"
  shows "\<exists>ok s'. post_prompts_test e s (prompt_request p ids it tmp mt) = (Inr ok, s')
           \<and> length (results ok) = length ids
           \<and> map model (results ok) = ids"
proof -
  have "\<And>s m opts. model (fst (test_model e s p opts m)) = m"
    using test_model_facts by blast
  from post_prompts_test_ok [of p ids "\<lambda>m r. model r = m" e s it tmp mt, OF assms this]
  obtain ok s' where
    run: "post_prompts_test e s (prompt_request p ids it tmp mt) = (Inr ok, s')"
    and all: "list_all2 (\<lambda>m r. model r = m) ids (results ok)" by blast
  from all have "map model (results ok) = ids" by (rule list_all2_field_eq)
  moreover from all have "length (results ok) = length ids" by (simp add: list_all2_lengthD)
  ultimately show ?thesis using run by blast
qed

theorem dispatch_results_in_order_witness:
  "str_trim (js ''Hello'') \<noteq> [] \<and> [js ''gpt-3.5-turbo'', js ''unknown-model''] \<noteq> []
   \<and> (\<exists>ok s'. post_prompts_test env_default state0
                  (prompt_request (js ''Hello'') [js ''gpt-3.5-turbo'', js ''unknown-model'']
                     JUndefined JUndefined JUndefined) = (Inr ok, s')
         \<and> length (results ok) = 2
         \<and> map model (results ok) = [js ''gpt-3.5-turbo'', js ''unknown-model''])"
proof -
  have h1: "str_trim (js ''Hello'') \<noteq> []" by code_simp
  have h2: "[js ''gpt-3.5-turbo'', js ''unknown-model''] \<noteq> []" by simp
  from dispatch_results_in_order [OF h1 h2, of env_default state0 JUndefined JUndefined JUndefined]
  show ?thesis using h1 h2 by (simp add: numeral_2_eq_2)
qed

text \<open>
  C2. For every request whose prompt is empty or consists of whitespace only, or whose
  list of models is empty, the handler answers 400 (a validation error), produces no
  results and leaves the state as it was: no adapter is invoked, nothing is read from
  the clock, the random source or the remote API.
\<close>

theorem validation_failure:
  assumes "b_prompt b = JStr p"
    and "(\<forall>c\<in>set p. is_whitespace c) \<or> b_models b = JArr []"
  shows "(\<exists>msg. post_prompts_test e s b = (Inl (ValidationError msg), s))
    \<and> results_of (post_prompts_test e s b) = []
    \<and> invocations (snd (post_prompts_test e s b)) = invocations s"
proof -
  have "\<exists>msg. post_prompts_test e s b = (Inl (ValidationError msg), s)"
  proof (cases "\<forall>c\<in>set p. is_whitespace c")
    case True
    then have "str_trim p = []" by (simp add: str_trim_empty_iff)
    with assms(1) show ?thesis by (simp add: post_prompts_test_def)
  next
    case False
    with assms(2) have m: "b_models b = JArr []" by blast
    with assms(1) show ?thesis by (simp add: post_prompts_test_def)
  qed
  then obtain msg where "post_prompts_test e s b = (Inl (ValidationError msg), s)" by blast
  then show ?thesis by (simp add: results_of_def)
qed

theorem validation_failure_witness:
  "b_prompt (prompt_request (js ''   '') [js ''gpt-4''] JUndefined JUndefined JUndefined) = JStr (js ''   '')
   \<and> ((\<forall>c\<in>set (js ''   ''). is_whitespace c)
        \<or> b_models (prompt_request (js ''   '') [js ''gpt-4''] JUndefined JUndefined JUndefined) = JArr [])
   \<and> (\<exists>msg. post_prompts_test env_default state0
                (prompt_request (js ''   '') [js ''gpt-4''] JUndefined JUndefined JUndefined)
              = (Inl (ValidationError msg), state0))
   \<and> results_of (post_prompts_test env_default state0
         (prompt_request (js ''   '') [js ''gpt-4''] JUndefined JUndefined JUndefined)) = []
   \<and> invocations (snd (post_prompts_test env_default state0
         (prompt_request (js ''   '') [js ''gpt-4''] JUndefined JUndefined JUndefined)))
       = invocations state0"
proof -
  have h1: "b_prompt (prompt_request (js ''   '') [js ''gpt-4''] JUndefined JUndefined JUndefined) = JStr (js ''   '')"
    by (simp add: prompt_request_def)
  have h2: "(\<forall>c\<in>set (js ''   ''). is_whitespace c)
        \<or> b_models (prompt_request (js ''   '') [js ''gpt-4''] JUndefined JUndefined JUndefined) = JArr []"
    by (simp add: js_def is_whitespace_def)
  note v = validation_failure [OF h1 h2, of env_default state0]
  show ?thesis
    by (intro conjI) (rule h1 h2 v [THEN conjunct1] v [THEN conjunct2, THEN conjunct1]
      v [THEN conjunct2, THEN conjunct2])+
qed

text \<open>
  C3. For every model id that neither contains \<open>gpt\<close> nor starts with \<open>claude-\<close>, the
  handler produces for that id a failure result with \<open>errorCode = UNSUPPORTED_MODEL\<close> and
  a response time of 0; the loop body for such an id is the construction of that
  object alone, so the log of adapter invocations gains no entry for the id; and every
  id of the batch still gets its result.
\<close>

theorem unsupported_model_result:
  assumes "str_trim p \<noteq> []" and "ids \<noteq> []"
  shows "\<exists>ok s'. post_prompts_test e s (prompt_request p ids it tmp mt) = (Inr ok, s')
           \<and> map model (results ok) = ids
           \<and> list_all2 (\<lambda>m r. \<not> str_includes m (js ''gpt'') \<and> \<not> str_startsWith m (js ''claude-'') \<longrightarrow>
                  \<not> success r \<and> errorCode r = Some (js ''UNSUPPORTED_MODEL'')
                  \<and> responseTime (metadata r) = 0) ids (results ok)
           \<and> (\<forall>m\<in>set ids. \<not> str_includes m (js ''gpt'') \<and> \<not> str_startsWith m (js ''claude-'') \<longrightarrow>
                  (\<forall>s0 opts. test_model e s0 p opts m = unsupported_result e s0 p m
                     \<and> invocations (snd (test_model e s0 p opts m)) = invocations s0)
                  \<and> (\<forall>sv. (sv, m) \<notin> set (drop (length (invocations s)) (invocations s'))))"
proof -
  let ?Q = "\<lambda>m r. model r = m \<and> (\<not> str_includes m (js ''gpt'') \<and> \<not> str_startsWith m (js ''claude-'') \<longrightarrow>
                  \<not> success r \<and> errorCode r = Some (js ''UNSUPPORTED_MODEL'')
                  \<and> responseTime (metadata r) = 0)"
  have "\<And>s m opts. ?Q m (fst (test_model e s p opts m))"
    using test_model_facts by blast
  from post_prompts_test_ok [of p ids ?Q e s it tmp mt, OF assms this]
  obtain ok s' where
    run: "post_prompts_test e s (prompt_request p ids it tmp mt) = (Inr ok, s')"
    and all: "list_all2 ?Q ids (results ok)"
    and inv: "invocations s' = invocations s @ concat (map invocation_of ids)" by blast
  from all have "list_all2 (\<lambda>m r. model r = m) ids (results ok)"
    by (rule list_all2_mono) simp
  then have a: "map model (results ok) = ids" by (rule list_all2_field_eq)
  from all have b: "list_all2 (\<lambda>m r. \<not> str_includes m (js ''gpt'') \<and> \<not> str_startsWith m (js ''claude-'') \<longrightarrow>
                  \<not> success r \<and> errorCode r = Some (js ''UNSUPPORTED_MODEL'')
                  \<and> responseTime (metadata r) = 0) ids (results ok)"
    by (rule list_all2_mono) simp
  have c: "\<forall>m\<in>set ids. \<not> str_includes m (js ''gpt'') \<and> \<not> str_startsWith m (js ''claude-'') \<longrightarrow>
                  (\<forall>s0 opts. test_model e s0 p opts m = unsupported_result e s0 p m
                     \<and> invocations (snd (test_model e s0 p opts m)) = invocations s0)
                  \<and> (\<forall>sv. (sv, m) \<notin> set (drop (length (invocations s)) (invocations s')))"
  proof (intro ballI impI conjI allI notI)
    fix m s0 opts
    assume un: "\<not> str_includes m (js ''gpt'') \<and> \<not> str_startsWith m (js ''claude-'')"
    then show "test_model e s0 p opts m = unsupported_result e s0 p m"
      by (simp add: test_model_other)
    from un show "invocations (snd (test_model e s0 p opts m)) = invocations s0"
      by (simp add: test_model_other unsupported_result_eq)
  next
    fix m sv
    assume un: "\<not> str_includes m (js ''gpt'') \<and> \<not> str_startsWith m (js ''claude-'')"
      and "(sv, m) \<in> set (drop (length (invocations s)) (invocations s'))"
    then have "(sv, m) \<in> set (concat (map invocation_of ids))" using inv by simp
    then obtain m' where "(sv, m) \<in> set (invocation_of m')" by auto
    then have "invocation_of m \<noteq> []" using invocation_of_snd by blast
    with un show False by (simp add: invocation_of_def)
  qed
  from run a b c show ?thesis by blast
qed

theorem unsupported_model_result_witness:
  "str_trim (js ''Hello'') \<noteq> [] \<and> [js ''gpt-3.5-turbo'', js ''unknown-model''] \<noteq> []
   \<and> \<not> str_includes (js ''unknown-model'') (js ''gpt'')
   \<and> \<not> str_startsWith (js ''unknown-model'') (js ''claude-'')
   \<and> (\<exists>ok s'. post_prompts_test env_default state0
                  (prompt_request (js ''Hello'') [js ''gpt-3.5-turbo'', js ''unknown-model'']
                     JUndefined JUndefined JUndefined) = (Inr ok, s')
         \<and> map model (results ok) = [js ''gpt-3.5-turbo'', js ''unknown-model'']
         \<and> \<not> success (results ok ! 1)
         \<and> errorCode (results ok ! 1) = Some (js ''UNSUPPORTED_MODEL'')
         \<and> responseTime (metadata (results ok ! 1)) = 0
         \<and> (\<forall>s0 opts. test_model env_default s0 (js ''Hello'') opts (js ''unknown-model'')
                = unsupported_result env_default s0 (js ''Hello'') (js ''unknown-model''))
         \<and> (\<forall>sv. (sv, js ''unknown-model'') \<notin> set (drop (length (invocations state0)) (invocations s'))))"
proof -
  have h1: "str_trim (js ''Hello'') \<noteq> []" by code_simp
  have h2: "[js ''gpt-3.5-turbo'', js ''unknown-model''] \<noteq> []" by simp
  have h3: "\<not> str_includes (js ''unknown-model'') (js ''gpt'')" by code_simp
  have h4: "\<not> str_startsWith (js ''unknown-model'') (js ''claude-'')" by code_simp
  from unsupported_model_result [OF h1 h2, of env_default state0 JUndefined JUndefined JUndefined]
  obtain ok s' where
    run: "post_prompts_test env_default state0
           (prompt_request (js ''Hello'') [js ''gpt-3.5-turbo'', js ''unknown-model'']
              JUndefined JUndefined JUndefined) = (Inr ok, s')"
    and a: "map model (results ok) = [js ''gpt-3.5-turbo'', js ''unknown-model'']"
    and b: "list_all2 (\<lambda>m r. \<not> str_includes m (js ''gpt'') \<and> \<not> str_startsWith m (js ''claude-'') \<longrightarrow>
                  \<not> success r \<and> errorCode r = Some (js ''UNSUPPORTED_MODEL'')
                  \<and> responseTime (metadata r) = 0)
              [js ''gpt-3.5-turbo'', js ''unknown-model''] (results ok)"
    and c: "\<forall>m\<in>set [js ''gpt-3.5-turbo'', js ''unknown-model''].
              \<not> str_includes m (js ''gpt'') \<and> \<not> str_startsWith m (js ''claude-'') \<longrightarrow>
                  (\<forall>s0 opts. test_model env_default s0 (js ''Hello'') opts m
                       = unsupported_result env_default s0 (js ''Hello'') m
                     \<and> invocations (snd (test_model env_default s0 (js ''Hello'') opts m)) = invocations s0)
                  \<and> (\<forall>sv. (sv, m) \<notin> set (drop (length (invocations state0)) (invocations s')))"
    by (elim exE conjE) (rule that, assumption+)
  from b h3 h4 have r1: "\<not> success (results ok ! 1)"
    and r2: "errorCode (results ok ! 1) = Some (js ''UNSUPPORTED_MODEL'')"
    and r3: "responseTime (metadata (results ok ! 1)) = 0"
    by (auto simp: list_all2_Cons1)
  from c h3 h4 have r4: "\<forall>sv. (sv, js ''unknown-model'') \<notin> set (drop (length (invocations state0)) (invocations s'))"
    and r5: "\<forall>s0 opts. test_model env_default s0 (js ''Hello'') opts (js ''unknown-model'')
                = unsupported_result env_default s0 (js ''Hello'') (js ''unknown-model'')"
    by simp_all
  show ?thesis
    by (intro conjI exI [of _ ok] exI [of _ s']) (rule h1 h2 h3 h4 run a r1 r2 r3 r4 r5)+
qed

text \<open>
  C4. For every dispatched batch the summary satisfies \<open>totalModels = results.length\<close>
  and \<open>successfulModels + failedModels = totalModels\<close>, the two counts being the numbers
  of successes and of failures among the results.
\<close>

theorem summary_counts:
  assumes "str_trim p \<noteq> []" and "ids \<noteq> []"
  shows "\<exists>ok s'. post_prompts_test e s (prompt_request p ids it tmp mt) = (Inr ok, s')
           \<and> totalModels (ok_summary ok) = length (results ok)
           \<and> successfulModels (ok_summary ok) = length (filter success (results ok))
           \<and> failedModels (ok_summary ok) = length (filter (\<lambda>r. \<not> success r) (results ok))
           \<and> successfulModels (ok_summary ok) + failedModels (ok_summary ok)
               = totalModels (ok_summary ok)"
proof -
  from post_prompts_test_plain [OF assms, of e s it tmp mt] obtain ok s' where
    run: "post_prompts_test e s (prompt_request p ids it tmp mt) = (Inr ok, s')"
    and len: "length (results ok) = length ids"
    and sm: "ok_summary ok = summarize (length ids) (results ok)" by blast
  have "length (filter success (results ok)) + length (filter (\<lambda>r. \<not> success r) (results ok))
          = length (results ok)"
    by (rule sum_length_filter_compl)
  with run len sm show ?thesis by (simp add: summarize_fields)
qed

theorem summary_counts_witness:
  "str_trim (js ''Hello'') \<noteq> [] \<and> [js ''gpt-3.5-turbo'', js ''unknown-model''] \<noteq> []
   \<and> (\<exists>ok s'. post_prompts_test env_default state0
                  (prompt_request (js ''Hello'') [js ''gpt-3.5-turbo'', js ''unknown-model'']
                     JUndefined JUndefined JUndefined) = (Inr ok, s')
         \<and> totalModels (ok_summary ok) = length (results ok)
         \<and> successfulModels (ok_summary ok) = length (filter success (results ok))
         \<and> failedModels (ok_summary ok) = length (filter (\<lambda>r. \<not> success r) (results ok))
         \<and> successfulModels (ok_summary ok) + failedModels (ok_summary ok)
             = totalModels (ok_summary ok))"
proof -
  have h1: "str_trim (js ''Hello'') \<noteq> []" by code_simp
  have h2: "[js ''gpt-3.5-turbo'', js ''unknown-model''] \<noteq> []" by simp
  from summary_counts [OF h1 h2, of env_default state0 JUndefined JUndefined JUndefined]
  show ?thesis using h1 h2 by blast
qed

text \<open>
  C5. For every dispatched batch \<open>totalCost\<close> is the sum of \<open>costTotal\<close> over the successful
  results only (added from left to right as doubles), rounded to 6 decimal places: the
  double nearest to the multiple of \<open>10\<^sup>-\<^sup>6\<close> that is at most half a unit away from the
  sum. With no successful result, \<open>totalCost = 0\<close> and the average response time is 0.
\<close>

theorem total_cost_of_successes:
  assumes "str_trim p \<noteq> []" and "ids \<noteq> []"
  shows "\<exists>ok s' xs. post_prompts_test e s (prompt_request p ids it tmp mt) = (Inr ok, s')
           \<and> map costTotal (filter success (results ok)) = map Num xs
           \<and> totalCost (ok_summary ok) = Num (fl (toFixed6 (double_sum xs)))
           \<and> (\<exists>k::int. toFixed6 (double_sum xs) = of_int k / 1000000)
           \<and> \<bar>toFixed6 (double_sum xs) - double_sum xs\<bar> \<le> 1 / 2000000
           \<and> (filter success (results ok) = [] \<longrightarrow>
                 totalCost (ok_summary ok) = Num 0 \<and> avgResponseTime (ok_summary ok) = 0)"
proof -
  from post_prompts_test_costs [OF assms, of e s it tmp mt] obtain ok s' xs where
    run: "post_prompts_test e s (prompt_request p ids it tmp mt) = (Inr ok, s')"
    and sm: "ok_summary ok = summarize (length ids) (results ok)"
    and xs: "map costTotal (filter success (results ok)) = map Num xs" by blast
  have a: "totalCost (ok_summary ok) = Num (fl (toFixed6 (double_sum xs)))"
    unfolding sm using xs by (rule summarize_totalCost)
  have b: "\<exists>k::int. toFixed6 (double_sum xs) = of_int k / 1000000"
    by (rule toFixed6_grid)
  have c: "\<bar>toFixed6 (double_sum xs) - double_sum xs\<bar> \<le> 1 / 2000000"
    by (rule toFixed6_close)
  have d: "filter success (results ok) = [] \<longrightarrow>
             totalCost (ok_summary ok) = Num 0 \<and> avgResponseTime (ok_summary ok) = 0"
    unfolding sm using summarize_no_success by blast
  from run xs a b c d show ?thesis by blast
qed

theorem total_cost_of_successes_witness:
  "str_trim (js ''Hello'') \<noteq> []
   \<and> [js ''gpt-4'', js ''claude-3-opus-20240229'', js ''unknown-model''] \<noteq> []
   \<and> (\<exists>ok s'. post_prompts_test env_default state0
                  (prompt_request (js ''Hello'')
                     [js ''gpt-4'', js ''claude-3-opus-20240229'', js ''unknown-model'']
                     JUndefined JUndefined JUndefined) = (Inr ok, s')
         \<and> map success (results ok) = [True, True, False]
         \<and> map costTotal (filter success (results ok)) = [Num (fl (5 / 1000)), Num (fl (1 / 100))]
         \<and> totalCost (ok_summary ok) = Num (fl (15 / 1000)))
   \<and> [js ''unknown-model''] \<noteq> []
   \<and> (\<exists>ok s'. post_prompts_test env_default state0
                  (prompt_request (js ''Hello'') [js ''unknown-model'']
                     JUndefined JUndefined JUndefined) = (Inr ok, s')
         \<and> filter success (results ok) = []
         \<and> totalCost (ok_summary ok) = Num 0 \<and> avgResponseTime (ok_summary ok) = 0)"
proof -
  let ?ids = "[js ''gpt-4'', js ''claude-3-opus-20240229'', js ''unknown-model'']"
  let ?run = "post_prompts_test env_default state0
                (prompt_request (js ''Hello'') ?ids JUndefined JUndefined JUndefined)"
  let ?run1 = "post_prompts_test env_default state0
                (prompt_request (js ''Hello'') [js ''unknown-model''] JUndefined JUndefined JUndefined)"
  note h1 = hello_trim
  have h2: "?ids \<noteq> []" by simp
  have h3: "[js ''unknown-model''] \<noteq> []" by simp
  have g: "str_includes (js ''gpt-4'') (js ''gpt'')" by code_simp
  have c1: "\<not> str_includes (js ''claude-3-opus-20240229'') (js ''gpt'')" by code_simp
  have c2: "str_startsWith (js ''claude-3-opus-20240229'') (js ''claude-'')" by code_simp
  have u1: "\<not> str_includes (js ''unknown-model'') (js ''gpt'')" by code_simp
  have u2: "\<not> str_startsWith (js ''unknown-model'') (js ''claude-'')" by code_simp
  have v0: "fl (toFixed6 (fl (1 / 2 * fl (1 / 100)))) = fl (5 / 1000)" by code_simp
  have v1: "fl (toFixed6 (fl (1 / 2 * fl (2 / 100)))) = fl (1 / 100)" by code_simp
  have v2: "fl (toFixed6 (double_sum [fl (5 / 1000), fl (1 / 100)])) = fl (15 / 1000)"
    by code_simp
  have gpt: "success (fst (test_model env_default s0 (js ''Hello'') opts (js ''gpt-4'')))
      \<and> costTotal (fst (test_model env_default s0 (js ''Hello'') opts (js ''gpt-4''))) = Num (fl (5 / 1000))"
    for s0 opts
    using v0 by (simp add: test_model_gpt [OF g] openai_simulated [OF no_openai_default]
        costTotal_def env_default_random)
  have claude: "success (fst (test_model env_default s0 (js ''Hello'') opts (js ''claude-3-opus-20240229'')))
      \<and> costTotal (fst (test_model env_default s0 (js ''Hello'') opts (js ''claude-3-opus-20240229'')))
          = Num (fl (1 / 100))"
    for s0 opts
    using v1 by (simp add: test_model_claude [OF c1 c2] anthropic_simulated
        costTotal_def env_default_random)
  have unknown: "\<not> success (fst (test_model env_default s0 (js ''Hello'') opts (js ''unknown-model'')))"
    for s0 opts
    by (simp add: test_model_other [OF u1 u2] unsupported_result_eq)
  from total_cost_of_successes [OF h1 h2, of env_default state0 JUndefined JUndefined JUndefined]
  obtain ok s' xs where run: "?run = (Inr ok, s')"
    and xs: "map costTotal (filter success (results ok)) = map Num xs"
    and tc: "totalCost (ok_summary ok) = Num (fl (toFixed6 (double_sum xs)))"
    by (elim exE conjE) (rule that, assumption+)
  from post_prompts_test_results [OF h1 h2, of env_default state0 JUndefined JUndefined JUndefined] run
  have "list_all2 (\<lambda>m r. \<exists>s0 opts. r = fst (test_model env_default s0 (js ''Hello'') opts m))
          ?ids (results ok)" by auto
  then obtain r0 r1 r2 where rs: "results ok = [r0, r1, r2]"
    and q0: "\<exists>s0 opts. r0 = fst (test_model env_default s0 (js ''Hello'') opts (js ''gpt-4''))"
    and q1: "\<exists>s0 opts. r1 = fst (test_model env_default s0 (js ''Hello'') opts (js ''claude-3-opus-20240229''))"
    and q2: "\<exists>s0 opts. r2 = fst (test_model env_default s0 (js ''Hello'') opts (js ''unknown-model''))"
    by (rule list_all2_three)
  from q0 gpt have s0: "success r0" and c0: "costTotal r0 = Num (fl (5 / 1000))" by auto
  from q1 claude have s1: "success r1" and c1': "costTotal r1 = Num (fl (1 / 100))" by auto
  from q2 unknown have s2: "\<not> success r2" by auto
  from rs s0 s1 s2 have sc: "map success (results ok) = [True, True, False]" by simp
  from rs s0 s1 s2 c0 c1' have cs: "map costTotal (filter success (results ok))
      = [Num (fl (5 / 1000)), Num (fl (1 / 100))]" by simp
  from xs cs have "map Num xs = [Num (fl (5 / 1000)), Num (fl (1 / 100))]" by simp
  then have "xs = [fl (5 / 1000), fl (1 / 100)]" by (auto simp: map_eq_Cons_conv)
  with tc v2 have tot: "totalCost (ok_summary ok) = Num (fl (15 / 1000))" by simp
  from total_cost_of_successes [OF h1 h3, of env_default state0 JUndefined JUndefined JUndefined]
  obtain ok1 s1' where run1: "?run1 = (Inr ok1, s1')"
    and d: "filter success (results ok1) = [] \<longrightarrow>
             totalCost (ok_summary ok1) = Num 0 \<and> avgResponseTime (ok_summary ok1) = 0"
    by (elim exE conjE) (rule that, assumption+)
  from post_prompts_test_results [OF h1 h3, of env_default state0 JUndefined JUndefined JUndefined] run1
  have "list_all2 (\<lambda>m r. \<exists>s0 opts. r = fst (test_model env_default s0 (js ''Hello'') opts m))
          [js ''unknown-model''] (results ok1)" by auto
  then obtain r where "results ok1 = [r]"
    and "\<exists>s0 opts. r = fst (test_model env_default s0 (js ''Hello'') opts (js ''unknown-model''))"
    by (rule list_all2_one)
  with unknown have none: "filter success (results ok1) = []" by auto
  with d have z1: "totalCost (ok_summary ok1) = Num 0" and z2: "avgResponseTime (ok_summary ok1) = 0"
    by simp_all
  have part1: "\<exists>ok s'. ?run = (Inr ok, s')
         \<and> map success (results ok) = [True, True, False]
         \<and> map costTotal (filter success (results ok)) = [Num (fl (5 / 1000)), Num (fl (1 / 100))]
         \<and> totalCost (ok_summary ok) = Num (fl (15 / 1000))"
    by (intro conjI exI [of _ ok] exI [of _ s']) (rule run sc cs tot)+
  have part2: "\<exists>ok s'. ?run1 = (Inr ok, s')
         \<and> filter success (results ok) = []
         \<and> totalCost (ok_summary ok) = Num 0 \<and> avgResponseTime (ok_summary ok) = 0"
    by (intro conjI exI [of _ ok1] exI [of _ s1']) (rule run1 none z1 z2)+
  show ?thesis
    by (intro conjI) (rule h1 h2 h3 part1 part2)+
qed

text \<open>
  C6. For every dispatched batch \<open>totalTokens\<close> is the sum of \<open>tokensTotal\<close> over the
  successful results (0 for a result without the property), and the average response
  time is the arithmetic mean of the response times of the successful results rounded
  to the nearest integer, or 0 when there is no success.
\<close>

theorem total_tokens_and_average:
  assumes "str_trim p \<noteq> []" and "ids \<noteq> []"
  shows "\<exists>ok s'. post_prompts_test e s (prompt_request p ids it tmp mt) = (Inr ok, s')
           \<and> totalTokens (ok_summary ok) = (\<Sum>r\<leftarrow>filter success (results ok). tokensTotal r)
           \<and> avgResponseTime (ok_summary ok) =
               (if filter success (results ok) = [] then 0
                else round (of_int (\<Sum>r\<leftarrow>filter success (results ok). responseTime (metadata r))
                            / of_nat (length (filter success (results ok))) :: rat))
           \<and> (filter success (results ok) \<noteq> [] \<longrightarrow>
                 \<bar>of_int (avgResponseTime (ok_summary ok))
                    - (of_int (\<Sum>r\<leftarrow>filter success (results ok). responseTime (metadata r))
                       / of_nat (length (filter success (results ok))) :: rat)\<bar> \<le> 1 / 2)"
proof -
  from post_prompts_test_plain [OF assms, of e s it tmp mt] obtain ok s' where
    run: "post_prompts_test e s (prompt_request p ids it tmp mt) = (Inr ok, s')"
    and sm: "ok_summary ok = summarize (length ids) (results ok)" by blast
  have a: "totalTokens (ok_summary ok) = (\<Sum>r\<leftarrow>filter success (results ok). tokensTotal r)"
    by (simp add: sm summarize_fields)
  have b: "avgResponseTime (ok_summary ok) =
               (if filter success (results ok) = [] then 0
                else round (of_int (\<Sum>r\<leftarrow>filter success (results ok). responseTime (metadata r))
                            / of_nat (length (filter success (results ok))) :: rat))"
    unfolding sm by (rule summarize_fields)
  have c: "filter success (results ok) \<noteq> [] \<longrightarrow>
                 \<bar>of_int (avgResponseTime (ok_summary ok))
                    - (of_int (\<Sum>r\<leftarrow>filter success (results ok). responseTime (metadata r))
                       / of_nat (length (filter success (results ok))) :: rat)\<bar> \<le> 1 / 2"
    unfolding b using of_int_round_abs_le by auto
  from run a b c show ?thesis by blast
qed

theorem total_tokens_and_average_witness:
  "str_trim (js ''Hello'') \<noteq> [] \<and> [js ''gpt-3.5-turbo'', js ''unknown-model''] \<noteq> []
   \<and> (\<exists>ok s'. post_prompts_test env_default state0
                  (prompt_request (js ''Hello'') [js ''gpt-3.5-turbo'', js ''unknown-model'']
                     JUndefined JUndefined JUndefined) = (Inr ok, s')
         \<and> filter success (results ok) \<noteq> []
         \<and> totalTokens (ok_summary ok) = 150
         \<and> avgResponseTime (ok_summary ok) = 1750)"
proof -
  let ?ids = "[js ''gpt-3.5-turbo'', js ''unknown-model'']"
  let ?run = "post_prompts_test env_default state0
              (prompt_request (js ''Hello'') ?ids JUndefined JUndefined JUndefined)"
  note h1 = hello_trim
  have h2: "?ids \<noteq> []" by simp
  have gpt: "success (fst (test_model env_default s0 (js ''Hello'') opts (js ''gpt-3.5-turbo'')))
      \<and> tokensTotal (fst (test_model env_default s0 (js ''Hello'') opts (js ''gpt-3.5-turbo''))) = 150
      \<and> responseTime (metadata (fst (test_model env_default s0 (js ''Hello'') opts (js ''gpt-3.5-turbo'')))) = 1750"
    for s0 opts
    using env_default_values
    by (simp add: test_model_gpt [OF model_id_facts(2)] openai_simulated [OF no_openai_default]
        tokensTotal_def env_default_random)
  have unknown: "\<not> success (fst (test_model env_default s0 (js ''Hello'') opts (js ''unknown-model'')))"
    for s0 opts
    by (simp add: test_model_other [OF model_id_facts(7) model_id_facts(8)] unsupported_result_eq)
  from total_tokens_and_average [OF h1 h2, of env_default state0 JUndefined JUndefined JUndefined]
  obtain ok s' where
    run: "?run = (Inr ok, s')"
    and a: "totalTokens (ok_summary ok) = (\<Sum>r\<leftarrow>filter success (results ok). tokensTotal r)"
    and b: "avgResponseTime (ok_summary ok) =
               (if filter success (results ok) = [] then 0
                else round (of_int (\<Sum>r\<leftarrow>filter success (results ok). responseTime (metadata r))
                            / of_nat (length (filter success (results ok))) :: rat))"
    by (elim exE conjE) (rule that, assumption+)
  from post_prompts_test_results [OF h1 h2, of env_default state0 JUndefined JUndefined JUndefined] run
  have "list_all2 (\<lambda>m r. \<exists>s0 opts. r = fst (test_model env_default s0 (js ''Hello'') opts m))
          ?ids (results ok)" by auto
  then obtain r0 r1 where rs: "results ok = [r0, r1]"
    and q0: "\<exists>s0 opts. r0 = fst (test_model env_default s0 (js ''Hello'') opts (js ''gpt-3.5-turbo''))"
    and q1: "\<exists>s0 opts. r1 = fst (test_model env_default s0 (js ''Hello'') opts (js ''unknown-model''))"
    by (rule list_all2_two)
  from q0 gpt have s0: "success r0" and t0: "tokensTotal r0 = 150"
    and rt0: "responseTime (metadata r0) = 1750" by auto
  from q1 unknown have s1: "\<not> success r1" by auto
  have f: "filter success (results ok) = [r0]" using rs s0 s1 by simp
  have ne: "filter success (results ok) \<noteq> []" using f by simp
  have tt: "totalTokens (ok_summary ok) = 150" using a f t0 by simp
  have av: "avgResponseTime (ok_summary ok) = 1750" using b f rt0 by simp
  show ?thesis
    by (intro conjI exI) (rule h1 h2 run ne tt av)+
qed

text \<open>
  C7, as stated, fails: the id \<open>claude-gpt\<close> starts with \<open>claude-\<close>, yet the first branch
  of the routing takes it, and its result comes from the OpenAI adapter.
\<close>

theorem claude_prefix_routing_counterexample:
  "str_startsWith (js ''claude-gpt'') (js ''claude-'')
   \<and> map provider (results_of (post_prompts_test env_default state0
          (prompt_request (js ''Hello'') [js ''claude-gpt''] JUndefined JUndefined JUndefined)))
       = [js ''OpenAI'']
   \<and> invocations (snd (post_prompts_test env_default state0
          (prompt_request (js ''Hello'') [js ''claude-gpt''] JUndefined JUndefined JUndefined)))
       = [(OpenAIService, js ''claude-gpt'')]"
proof -
  let ?ids = "[js ''claude-gpt'']"
  let ?run = "post_prompts_test env_default state0
                (prompt_request (js ''Hello'') ?ids JUndefined JUndefined JUndefined)"
  have h2: "?ids \<noteq> []" by simp
  have q: "\<And>s m opts. str_includes m (js ''gpt'') \<longrightarrow>
             provider (fst (test_model env_default s (js ''Hello'') opts m)) = js ''OpenAI''"
    using test_model_facts by blast
  from post_prompts_test_ok
    [of "js ''Hello''" ?ids "\<lambda>m r. str_includes m (js ''gpt'') \<longrightarrow> provider r = js ''OpenAI''"
        env_default state0 JUndefined JUndefined JUndefined, OF hello_trim h2 q]
  obtain ok s' where run: "?run = (Inr ok, s')"
    and all: "list_all2 (\<lambda>m r. str_includes m (js ''gpt'') \<longrightarrow> provider r = js ''OpenAI'') ?ids (results ok)"
    and inv: "invocations s' = invocations state0 @ concat (map invocation_of ?ids)"
    by (elim exE conjE) (rule that, assumption+)
  from all obtain r where rs: "results ok = [r]"
    and "str_includes (js ''claude-gpt'') (js ''gpt'') \<longrightarrow> provider r = js ''OpenAI''"
    by (rule list_all2_one)
  with model_id_facts(3) have "provider r = js ''OpenAI''" by simp
  with rs run have a: "map provider (results_of ?run) = [js ''OpenAI'']"
    by (simp add: results_of_def)
  from inv run model_id_facts(3) have b: "invocations (snd ?run) = [(OpenAIService, js ''claude-gpt'')]"
    by (simp add: invocation_of_def state0_def)
  show ?thesis
    by (intro conjI) (rule model_id_facts(4) a b)+
qed

text \<open>
  C7, amended. For every model id that starts with \<open>gpt-\<close> or contains \<open>gpt\<close>, the handler
  routes the id to the OpenAI adapter; for every model id that starts with \<open>claude-\<close>
  and does not contain \<open>gpt\<close>, it routes the id to the Anthropic adapter: the loop body
  is the call of that adapter, the result names its provider, and the log of adapter
  invocations of a request lists, in input order, exactly these calls.
\<close>

theorem routing_by_classifier:
  assumes "str_trim p \<noteq> []" and "ids \<noteq> []"
  shows "\<exists>ok s'. post_prompts_test e s (prompt_request p ids it tmp mt) = (Inr ok, s')
           \<and> list_all2 (\<lambda>m r.
                 (str_startsWith m (js ''gpt-'') \<or> str_includes m (js ''gpt'') \<longrightarrow>
                    provider r = js ''OpenAI'')
                 \<and> (str_startsWith m (js ''claude-'') \<and> \<not> str_includes m (js ''gpt'') \<longrightarrow>
                    provider r = js ''Anthropic'')) ids (results ok)
           \<and> (\<forall>m\<in>set ids. \<forall>s0 opts.
                 (str_startsWith m (js ''gpt-'') \<or> str_includes m (js ''gpt'') \<longrightarrow>
                    test_model e s0 p opts m = openai_testPrompt e s0 p m opts)
                 \<and> (str_startsWith m (js ''claude-'') \<and> \<not> str_includes m (js ''gpt'') \<longrightarrow>
                    test_model e s0 p opts m = anthropic_testPrompt e s0 p m opts))
           \<and> invocations s' = invocations s @ concat (map invocation_of ids)"
proof -
  let ?Q = "\<lambda>m r.
                 (str_startsWith m (js ''gpt-'') \<or> str_includes m (js ''gpt'') \<longrightarrow>
                    provider r = js ''OpenAI'')
                 \<and> (str_startsWith m (js ''claude-'') \<and> \<not> str_includes m (js ''gpt'') \<longrightarrow>
                    provider r = js ''Anthropic'')"
  have "\<And>s m opts. ?Q m (fst (test_model e s p opts m))"
    using test_model_facts gpt_dash_includes_gpt by blast
  from post_prompts_test_ok [of p ids ?Q e s it tmp mt, OF assms this]
  obtain ok s' where
    run: "post_prompts_test e s (prompt_request p ids it tmp mt) = (Inr ok, s')"
    and all: "list_all2 ?Q ids (results ok)"
    and inv: "invocations s' = invocations s @ concat (map invocation_of ids)" by blast
  have body: "\<forall>m\<in>set ids. \<forall>s0 opts.
                 (str_startsWith m (js ''gpt-'') \<or> str_includes m (js ''gpt'') \<longrightarrow>
                    test_model e s0 p opts m = openai_testPrompt e s0 p m opts)
                 \<and> (str_startsWith m (js ''claude-'') \<and> \<not> str_includes m (js ''gpt'') \<longrightarrow>
                    test_model e s0 p opts m = anthropic_testPrompt e s0 p m opts)"
    using test_model_gpt test_model_claude gpt_dash_includes_gpt by blast
  from run all inv body show ?thesis by blast
qed

theorem routing_by_classifier_witness:
  "str_trim (js ''Hello'') \<noteq> [] \<and> [js ''gpt-4'', js ''claude-3-opus-20240229''] \<noteq> []
   \<and> str_includes (js ''gpt-4'') (js ''gpt'')
   \<and> str_startsWith (js ''claude-3-opus-20240229'') (js ''claude-'')
   \<and> \<not> str_includes (js ''claude-3-opus-20240229'') (js ''gpt'')
   \<and> (\<exists>ok s'. post_prompts_test env_default state0
                  (prompt_request (js ''Hello'') [js ''gpt-4'', js ''claude-3-opus-20240229'']
                     JUndefined JUndefined JUndefined) = (Inr ok, s')
         \<and> provider (results ok ! 0) = js ''OpenAI''
         \<and> provider (results ok ! 1) = js ''Anthropic''
         \<and> (\<forall>s0 opts. test_model env_default s0 (js ''Hello'') opts (js ''gpt-4'')
                = openai_testPrompt env_default s0 (js ''Hello'') (js ''gpt-4'') opts)
         \<and> (\<forall>s0 opts. test_model env_default s0 (js ''Hello'') opts (js ''claude-3-opus-20240229'')
                = anthropic_testPrompt env_default s0 (js ''Hello'') (js ''claude-3-opus-20240229'') opts)
         \<and> invocations s' =
             [(OpenAIService, js ''gpt-4''), (AnthropicService, js ''claude-3-opus-20240229'')])"
proof -
  have h1: "str_trim (js ''Hello'') \<noteq> []" by code_simp
  have h2: "[js ''gpt-4'', js ''claude-3-opus-20240229''] \<noteq> []" by simp
  have h3: "str_includes (js ''gpt-4'') (js ''gpt'')" by code_simp
  have h4: "str_startsWith (js ''claude-3-opus-20240229'') (js ''claude-'')" by code_simp
  have h5: "\<not> str_includes (js ''claude-3-opus-20240229'') (js ''gpt'')" by code_simp
  from routing_by_classifier [OF h1 h2, of env_default state0 JUndefined JUndefined JUndefined]
  obtain ok s' where
    run: "post_prompts_test env_default state0
            (prompt_request (js ''Hello'') [js ''gpt-4'', js ''claude-3-opus-20240229'']
               JUndefined JUndefined JUndefined) = (Inr ok, s')"
    and all: "list_all2 (\<lambda>m r.
                 (str_startsWith m (js ''gpt-'') \<or> str_includes m (js ''gpt'') \<longrightarrow>
                    provider r = js ''OpenAI'')
                 \<and> (str_startsWith m (js ''claude-'') \<and> \<not> str_includes m (js ''gpt'') \<longrightarrow>
                    provider r = js ''Anthropic''))
              [js ''gpt-4'', js ''claude-3-opus-20240229''] (results ok)"
    and body: "\<forall>m\<in>set [js ''gpt-4'', js ''claude-3-opus-20240229'']. \<forall>s0 opts.
                 (str_startsWith m (js ''gpt-'') \<or> str_includes m (js ''gpt'') \<longrightarrow>
                    test_model env_default s0 (js ''Hello'') opts m
                      = openai_testPrompt env_default s0 (js ''Hello'') m opts)
                 \<and> (str_startsWith m (js ''claude-'') \<and> \<not> str_includes m (js ''gpt'') \<longrightarrow>
                    test_model env_default s0 (js ''Hello'') opts m
                      = anthropic_testPrompt env_default s0 (js ''Hello'') m opts)"
    and inv: "invocations s' = invocations state0
                @ concat (map invocation_of [js ''gpt-4'', js ''claude-3-opus-20240229''])"
    by (elim exE conjE) (rule that, assumption+)
  from all h3 h4 h5 have r0: "provider (results ok ! 0) = js ''OpenAI''"
    and r1: "provider (results ok ! 1) = js ''Anthropic''"
    by (auto simp: list_all2_Cons1)
  from body h3 have b0: "\<forall>s0 opts. test_model env_default s0 (js ''Hello'') opts (js ''gpt-4'')
                = openai_testPrompt env_default s0 (js ''Hello'') (js ''gpt-4'') opts"
    by simp
  from body h4 h5 have b1: "\<forall>s0 opts. test_model env_default s0 (js ''Hello'') opts (js ''claude-3-opus-20240229'')
                = anthropic_testPrompt env_default s0 (js ''Hello'') (js ''claude-3-opus-20240229'') opts"
    by simp
  from inv h3 h4 h5 have lg: "invocations s' =
             [(OpenAIService, js ''gpt-4''), (AnthropicService, js ''claude-3-opus-20240229'')]"
    by (simp add: invocation_of_def state0_def)
  show ?thesis
    by (intro conjI exI [of _ ok] exI [of _ s']) (rule h1 h2 h3 h4 h5 run r0 r1 b0 b1 lg)+
qed

text \<open>
  C8. Each adapter's \<open>testPrompt\<close> is its \<open>try\<close> block followed by its \<open>catch\<close> block, and the
  \<open>catch\<close> block of either adapter turns the caught error into the failure variant whose
  \<open>error\<close> is the error's message, so nothing is raised past the adapter. In the OpenAI
  adapter a rejection of the remote call, or the \<open>TypeError\<close> of a reply without
  \<open>choices\<close>, ends that way; the \<open>try\<close> block of the Anthropic adapter throws nothing and
  the adapter returns a success. So whatever the remote API does, a batch is never
  aborted: every id gets its result, a success or a failure carrying a message.
\<close>

theorem adapter_errors_become_results:
  "(openai e \<and> create_src e (create_ix s) (completion_request p m opts) = Inl msg \<longrightarrow>
      \<not> success (fst (openai_testPrompt e s p m opts))
      \<and> error (fst (openai_testPrompt e s p m opts)) = Some msg)
   \<and> (openai e \<and> create_src e (create_ix s) (completion_request p m opts) = Inr resp
        \<and> choices resp = None \<longrightarrow>
      \<not> success (fst (openai_testPrompt e s p m opts))
      \<and> error (fst (openai_testPrompt e s p m opts)) = Some TypeError_message)
   \<and> model (fst (openai_testPrompt e s p m opts)) = m
   \<and> prompt (fst (openai_testPrompt e s p m opts)) = p
   \<and> (success (fst (openai_testPrompt e s p m opts))
        \<or> error (fst (openai_testPrompt e s p m opts)) \<noteq> None)
   \<and> openai_testPrompt e s p m opts =
        try_catch (openai_try e (snd (Date_now e (invoked OpenAIService m s)))
                     (fst (Date_now e (invoked OpenAIService m s))) p m opts)
          (\<lambda>msg s2. openai_catch e s2 (fst (Date_now e (invoked OpenAIService m s))) p m msg)
   \<and> try_catch (Inl msg, s2) (\<lambda>msg s2. openai_catch e s2 t p m msg) =
        (\<lparr>success = False, model = m, provider = js ''OpenAI'', prompt = p, response = None,
          error = Some msg, errorCode = None,
          metadata = \<lparr>responseTime = clock_src e (clock_ix s2) - t, tokens = None, cost = None,
            timestamp = clock_src e (clock_ix s2 + 1)\<rparr>\<rparr>,
         s2\<lparr>clock_ix := clock_ix s2 + 2\<rparr>)
   \<and> anthropic_testPrompt e s p m opts =
        try_catch (anthropic_try e (snd (Date_now e (invoked AnthropicService m s)))
                     (fst (Date_now e (invoked AnthropicService m s))) p m opts)
          (\<lambda>msg s2. anthropic_catch e s2 (fst (Date_now e (invoked AnthropicService m s))) p m msg)
   \<and> try_catch (Inl msg, s2) (\<lambda>msg s2. anthropic_catch e s2 t p m msg) =
        (\<lparr>success = False, model = m, provider = js ''Anthropic'', prompt = p, response = None,
          error = Some msg, errorCode = None,
          metadata = \<lparr>responseTime = clock_src e (clock_ix s2) - t, tokens = None, cost = None,
            timestamp = clock_src e (clock_ix s2 + 1)\<rparr>\<rparr>,
         s2\<lparr>clock_ix := clock_ix s2 + 2\<rparr>)
   \<and> (\<exists>r s'. anthropic_try e s2 t p m opts = (Inr r, s'))
   \<and> success (fst (anthropic_testPrompt e s p m opts))
   \<and> model (fst (anthropic_testPrompt e s p m opts)) = m
   \<and> (str_trim p \<noteq> [] \<and> ids \<noteq> [] \<longrightarrow>
        (\<exists>ok s'. post_prompts_test e s (prompt_request p ids it tmp mt) = (Inr ok, s')
           \<and> map model (results ok) = ids
           \<and> list_all2 (\<lambda>m r. success r \<or> error r \<noteq> None) ids (results ok)))"
proof -
  have a: "openai e \<and> create_src e (create_ix s) (completion_request p m opts) = Inl msg \<longrightarrow>
      \<not> success (fst (openai_testPrompt e s p m opts))
      \<and> error (fst (openai_testPrompt e s p m opts)) = Some msg"
    by (simp add: openai_rejected)
  have b: "openai e \<and> create_src e (create_ix s) (completion_request p m opts) = Inr resp
        \<and> choices resp = None \<longrightarrow>
      \<not> success (fst (openai_testPrompt e s p m opts))
      \<and> error (fst (openai_testPrompt e s p m opts)) = Some TypeError_message"
    by (simp add: openai_no_choices)
  have c: "model (fst (openai_testPrompt e s p m opts)) = m"
    "prompt (fst (openai_testPrompt e s p m opts)) = p"
    "success (fst (openai_testPrompt e s p m opts))
           \<or> error (fst (openai_testPrompt e s p m opts)) \<noteq> None"
    using openai_testPrompt_shape [OF refl, of e s p m opts] by blast+
  note d = testPrompt_try_catch(1) [of e s p m opts]
  have f: "try_catch (Inl msg, s2) (\<lambda>msg s2. openai_catch e s2 t p m msg) =
        (\<lparr>success = False, model = m, provider = js ''OpenAI'', prompt = p, response = None,
          error = Some msg, errorCode = None,
          metadata = \<lparr>responseTime = clock_src e (clock_ix s2) - t, tokens = None, cost = None,
            timestamp = clock_src e (clock_ix s2 + 1)\<rparr>\<rparr>,
         s2\<lparr>clock_ix := clock_ix s2 + 2\<rparr>)"
    by (simp add: catch_pairs)
  note g = testPrompt_try_catch(2) [of e s p m opts]
  have h: "try_catch (Inl msg, s2) (\<lambda>msg s2. anthropic_catch e s2 t p m msg) =
        (\<lparr>success = False, model = m, provider = js ''Anthropic'', prompt = p, response = None,
          error = Some msg, errorCode = None,
          metadata = \<lparr>responseTime = clock_src e (clock_ix s2) - t, tokens = None, cost = None,
            timestamp = clock_src e (clock_ix s2 + 1)\<rparr>\<rparr>,
         s2\<lparr>clock_ix := clock_ix s2 + 2\<rparr>)"
    by (simp add: catch_pairs)
  have i: "\<exists>r s'. anthropic_try e s2 t p m opts = (Inr r, s')"
    using anthropic_try_Inr [of e s2 t p m opts] by blast
  have j: "success (fst (anthropic_testPrompt e s p m opts))"
    "model (fst (anthropic_testPrompt e s p m opts)) = m"
    using anthropic_testPrompt_shape [OF refl, of e s p m opts] by blast+
  have k: "str_trim p \<noteq> [] \<and> ids \<noteq> [] \<longrightarrow>
        (\<exists>ok s'. post_prompts_test e s (prompt_request p ids it tmp mt) = (Inr ok, s')
           \<and> map model (results ok) = ids
           \<and> list_all2 (\<lambda>m r. success r \<or> error r \<noteq> None) ids (results ok))"
  proof
    assume hyp: "str_trim p \<noteq> [] \<and> ids \<noteq> []"
    let ?Q = "\<lambda>m r. model r = m \<and> (success r \<or> error r \<noteq> None)"
    have q: "\<And>s m opts. ?Q m (fst (test_model e s p opts m))"
      using test_model_facts by blast
    from hyp have h1: "str_trim p \<noteq> []" and h2: "ids \<noteq> []" by simp_all
    from post_prompts_test_ok [of p ids ?Q e s it tmp mt, OF h1 h2 q]
    obtain ok s' where
      run: "post_prompts_test e s (prompt_request p ids it tmp mt) = (Inr ok, s')"
      and all: "list_all2 ?Q ids (results ok)" by blast
    from all have "list_all2 (\<lambda>m r. model r = m) ids (results ok)"
      by (rule list_all2_mono) simp
    then have mm: "map model (results ok) = ids" by (rule list_all2_field_eq)
    from all have "list_all2 (\<lambda>m r. success r \<or> error r \<noteq> None) ids (results ok)"
      by (rule list_all2_mono) simp
    with run mm show "\<exists>ok s'. post_prompts_test e s (prompt_request p ids it tmp mt) = (Inr ok, s')
           \<and> map model (results ok) = ids
           \<and> list_all2 (\<lambda>m r. success r \<or> error r \<noteq> None) ids (results ok)" by blast
  qed
  show ?thesis
    by (intro conjI) (rule a b c d f g h i j k)+
qed

theorem adapter_errors_become_results_witness:
  "openai env_rejecting
   \<and> create_src env_rejecting (create_ix state0)
        (completion_request (js ''Hello'') (js ''gpt-4'')
           \<lparr>opt_temperature = JNum 1, opt_maxTokens = JNum 500\<rparr>)
       = Inl (js ''Rate limit exceeded'')
   \<and> \<not> success (fst (openai_testPrompt env_rejecting state0 (js ''Hello'') (js ''gpt-4'')
           \<lparr>opt_temperature = JNum 1, opt_maxTokens = JNum 500\<rparr>))
   \<and> error (fst (openai_testPrompt env_rejecting state0 (js ''Hello'') (js ''gpt-4'')
           \<lparr>opt_temperature = JNum 1, opt_maxTokens = JNum 500\<rparr>))
       = Some (js ''Rate limit exceeded'')
   \<and> openai env_malformed
   \<and> create_src env_malformed (create_ix state0)
        (completion_request (js ''Hello'') (js ''gpt-4'')
           \<lparr>opt_temperature = JNum 1, opt_maxTokens = JNum 500\<rparr>)
       = Inr \<lparr>choices = None, usage = None\<rparr>
   \<and> choices \<lparr>choices = None, usage = None\<rparr> = None
   \<and> error (fst (openai_testPrompt env_malformed state0 (js ''Hello'') (js ''gpt-4'')
           \<lparr>opt_temperature = JNum 1, opt_maxTokens = JNum 500\<rparr>))
       = Some (js ''Cannot read properties of undefined (reading '' @ [0x27] @ js ''0'' @ [0x27] @ js '')'')
   \<and> \<not> success (fst (try_catch (Inl (js ''overloaded''), state0)
          (\<lambda>msg s2. anthropic_catch env_default s2 1699999999000 (js ''Hello'')
             (js ''claude-3-opus-20240229'') msg)))
   \<and> error (fst (try_catch (Inl (js ''overloaded''), state0)
          (\<lambda>msg s2. anthropic_catch env_default s2 1699999999000 (js ''Hello'')
             (js ''claude-3-opus-20240229'') msg))) = Some (js ''overloaded'')
   \<and> responseTime (metadata (fst (try_catch (Inl (js ''overloaded''), state0)
          (\<lambda>msg s2. anthropic_catch env_default s2 1699999999000 (js ''Hello'')
             (js ''claude-3-opus-20240229'') msg)))) = 1000
   \<and> str_trim (js ''Hello'') \<noteq> [] \<and> [js ''gpt-4'', js ''claude-3-opus-20240229''] \<noteq> []
   \<and> (\<exists>ok s'. post_prompts_test env_rejecting state0
                  (prompt_request (js ''Hello'') [js ''gpt-4'', js ''claude-3-opus-20240229'']
                     JUndefined JUndefined JUndefined) = (Inr ok, s')
         \<and> map model (results ok) = [js ''gpt-4'', js ''claude-3-opus-20240229'']
         \<and> map success (results ok) = [False, True])"
proof -
  let ?opts = "\<lparr>opt_temperature = JNum 1, opt_maxTokens = JNum 500\<rparr>"
  let ?ids = "[js ''gpt-4'', js ''claude-3-opus-20240229'']"
  let ?run = "post_prompts_test env_rejecting state0
                (prompt_request (js ''Hello'') ?ids JUndefined JUndefined JUndefined)"
  let ?caught = "try_catch (Inl (js ''overloaded''), state0)
          (\<lambda>msg s2. anthropic_catch env_default s2 1699999999000 (js ''Hello'')
             (js ''claude-3-opus-20240229'') msg)"
  note a1 = env_rejecting_openai
  note a2 = env_rejecting_create [of "create_ix state0" "completion_request (js ''Hello'') (js ''gpt-4'') ?opts"]
  note b1 = env_malformed_openai
  note b2 = env_malformed_create [of "create_ix state0" "completion_request (js ''Hello'') (js ''gpt-4'') ?opts"]
  have b3: "choices \<lparr>choices = None, usage = None\<rparr> = None" by simp
  note h1 = hello_trim
  have h2: "?ids \<noteq> []" by simp
  note rej = adapter_errors_become_results
    [where e = env_rejecting and s = state0 and p = "js ''Hello''" and m = "js ''gpt-4''"
       and opts = ?opts and msg = "js ''Rate limit exceeded''"
       and resp = "\<lparr>choices = None, usage = None\<rparr>" and ids = ?ids
       and it = JUndefined and tmp = JUndefined and mt = JUndefined
       and ?s2.0 = state0 and t = 0]
  note mal = adapter_errors_become_results
    [where e = env_malformed and s = state0 and p = "js ''Hello''" and m = "js ''gpt-4''"
       and opts = ?opts and msg = "js ''Rate limit exceeded''"
       and resp = "\<lparr>choices = None, usage = None\<rparr>" and ids = ?ids
       and it = JUndefined and tmp = JUndefined and mt = JUndefined
       and ?s2.0 = state0 and t = 0]
  note ant = adapter_errors_become_results
    [where e = env_default and s = state0 and p = "js ''Hello''" and m = "js ''claude-3-opus-20240229''"
       and opts = ?opts and msg = "js ''overloaded''"
       and resp = "\<lparr>choices = None, usage = None\<rparr>" and ids = ?ids
       and it = JUndefined and tmp = JUndefined and mt = JUndefined
       and ?s2.0 = state0 and t = 1699999999000]
  from mp [OF rej [THEN conjunct1] conjI [OF a1 a2]]
  have r1: "\<not> success (fst (openai_testPrompt env_rejecting state0 (js ''Hello'') (js ''gpt-4'') ?opts))"
    and r2: "error (fst (openai_testPrompt env_rejecting state0 (js ''Hello'') (js ''gpt-4'') ?opts))
               = Some (js ''Rate limit exceeded'')"
    by (rule conjunct1, rule conjunct2)
  from mp [OF mal [THEN conjunct2, THEN conjunct1] conjI [OF b1 conjI [OF b2 b3]]]
  have r3: "error (fst (openai_testPrompt env_malformed state0 (js ''Hello'') (js ''gpt-4'') ?opts))
               = Some (js ''Cannot read properties of undefined (reading '' @ [0x27] @ js ''0'' @ [0x27] @ js '')'')"
    unfolding TypeError_message_def by (rule conjunct2)
  note caught = ant [THEN conjunct2, THEN conjunct2, THEN conjunct2, THEN conjunct2,
    THEN conjunct2, THEN conjunct2, THEN conjunct2, THEN conjunct2, THEN conjunct1]
  have k1: "\<not> success (fst ?caught)" and k2: "error (fst ?caught) = Some (js ''overloaded'')"
    and k3: "responseTime (metadata (fst ?caught)) = 1000"
    unfolding caught by (simp_all add: env_default_def state0_def)
  note batch = rej [THEN conjunct2, THEN conjunct2, THEN conjunct2, THEN conjunct2,
    THEN conjunct2, THEN conjunct2, THEN conjunct2, THEN conjunct2, THEN conjunct2,
    THEN conjunct2, THEN conjunct2, THEN conjunct2]
  from mp [OF batch conjI [OF h1 h2]] obtain ok s' where run: "?run = (Inr ok, s')"
    and mm: "map model (results ok) = ?ids"
    by (elim exE conjE) (rule that, assumption+)
  from post_prompts_test_results [OF h1 h2, of env_rejecting state0 JUndefined JUndefined JUndefined] run
  have "list_all2 (\<lambda>m r. \<exists>s0 opts. r = fst (test_model env_rejecting s0 (js ''Hello'') opts m))
          ?ids (results ok)" by auto
  then obtain r0 r1' where rs: "results ok = [r0, r1']"
    and q0: "\<exists>s0 opts. r0 = fst (test_model env_rejecting s0 (js ''Hello'') opts (js ''gpt-4''))"
    and q1: "\<exists>s0 opts. r1' = fst (test_model env_rejecting s0 (js ''Hello'') opts (js ''claude-3-opus-20240229''))"
    by (rule list_all2_two)
  from q0 obtain s0 opts where "r0 = fst (openai_testPrompt env_rejecting s0 (js ''Hello'') (js ''gpt-4'') opts)"
    by (auto simp: test_model_gpt [OF model_id_facts(1)])
  with openai_rejected [OF env_rejecting_openai env_rejecting_create, of s0 "js ''Hello''" "js ''gpt-4''" opts]
  have f0: "\<not> success r0" by simp
  from q1 have f1: "success r1'"
    by (auto simp: test_model_claude [OF model_id_facts(5) model_id_facts(6)] anthropic_simulated)
  from rs f0 f1 have sc: "map success (results ok) = [False, True]" by simp
  show ?thesis
    by (intro conjI exI [of _ ok] exI [of _ s']) (rule a1 a2 r1 r2 b1 b2 b3 r3 k1 k2 k3 h1 h2 run mm sc)+
qed

text \<open>
  C9, as stated, fails: with an OpenAI key configured and the remote API rejecting
  the call, the failure result of \<open>gpt-4\<close> has a message but no \<open>errorCode\<close>.
\<close>

theorem adapter_failure_errorCode_counterexample:
  "map success (results_of (post_prompts_test env_rejecting state0
       (prompt_request (js ''Hello'') [js ''gpt-4''] JUndefined JUndefined JUndefined))) = [False]
   \<and> map error (results_of (post_prompts_test env_rejecting state0
       (prompt_request (js ''Hello'') [js ''gpt-4''] JUndefined JUndefined JUndefined)))
       = [Some (js ''Rate limit exceeded'')]
   \<and> map errorCode (results_of (post_prompts_test env_rejecting state0
       (prompt_request (js ''Hello'') [js ''gpt-4''] JUndefined JUndefined JUndefined))) = [None]"
proof -
  let ?ids = "[js ''gpt-4'']"
  let ?run = "post_prompts_test env_rejecting state0
                (prompt_request (js ''Hello'') ?ids JUndefined JUndefined JUndefined)"
  have h2: "?ids \<noteq> []" by simp
  from post_prompts_test_results [OF hello_trim h2, of env_rejecting state0 JUndefined JUndefined JUndefined]
  obtain ok s' where run: "?run = (Inr ok, s')"
    and all: "list_all2 (\<lambda>m r. \<exists>s0 opts. r = fst (test_model env_rejecting s0 (js ''Hello'') opts m))
                ?ids (results ok)"
    by (elim exE conjE) (rule that, assumption+)
  from all obtain r where rs: "results ok = [r]"
    and "\<exists>s0 opts. r = fst (test_model env_rejecting s0 (js ''Hello'') opts (js ''gpt-4''))"
    by (rule list_all2_one)
  then obtain s0 opts where "r = fst (openai_testPrompt env_rejecting s0 (js ''Hello'') (js ''gpt-4'') opts)"
    by (auto simp: test_model_gpt [OF model_id_facts(1)])
  with openai_rejected [OF env_rejecting_openai env_rejecting_create, of s0 "js ''Hello''" "js ''gpt-4''" opts]
  have "\<not> success r" and "error r = Some (js ''Rate limit exceeded'')" and "errorCode r = None"
    by simp_all
  with rs run show ?thesis by (simp add: results_of_def)
qed

text \<open>
  C9, amended. Every failure result of a dispatched batch carries an error message
  alongside model, provider, prompt, response time and timestamp. The failure produced
  for an unsupported model id also carries \<open>errorCode = UNSUPPORTED_MODEL\<close> (and the
  provider \<open>Unknown\<close>); the failure produced by an adapter carries no \<open>errorCode\<close>.
\<close>

theorem failure_result_fields:
  assumes "str_trim p \<noteq> []" and "ids \<noteq> []"
  shows "\<exists>ok s'. post_prompts_test e s (prompt_request p ids it tmp mt) = (Inr ok, s')
           \<and> list_all2 (\<lambda>m r. \<not> success r \<longrightarrow>
                 model r = m \<and> prompt r = p \<and> (\<exists>msg. error r = Some msg)
                 \<and> (if str_includes m (js ''gpt'') \<or> str_startsWith m (js ''claude-'')
                     then provider r = js ''OpenAI'' \<and> errorCode r = None
                     else provider r = js ''Unknown''
                       \<and> errorCode r = Some (js ''UNSUPPORTED_MODEL''))) ids (results ok)"
proof -
  let ?Q = "\<lambda>m r. \<not> success r \<longrightarrow>
                 model r = m \<and> prompt r = p \<and> (\<exists>msg. error r = Some msg)
                 \<and> (if str_includes m (js ''gpt'') \<or> str_startsWith m (js ''claude-'')
                     then provider r = js ''OpenAI'' \<and> errorCode r = None
                     else provider r = js ''Unknown''
                       \<and> errorCode r = Some (js ''UNSUPPORTED_MODEL''))"
  have "\<And>s m opts. ?Q m (fst (test_model e s p opts m))"
  proof -
    fix s m opts
    from test_model_facts [OF refl, of e s p opts m]
    show "?Q m (fst (test_model e s p opts m))" by (auto split: if_splits)
  qed
  from post_prompts_test_ok [of p ids ?Q e s it tmp mt, OF assms this]
  show ?thesis by blast
qed

theorem failure_result_fields_witness:
  "str_trim (js ''Hello'') \<noteq> [] \<and> [js ''gpt-4'', js ''unknown-model''] \<noteq> []
   \<and> (\<exists>ok s'. post_prompts_test env_rejecting state0
                  (prompt_request (js ''Hello'') [js ''gpt-4'', js ''unknown-model'']
                     JUndefined JUndefined JUndefined) = (Inr ok, s')
         \<and> map success (results ok) = [False, False]
         \<and> (\<exists>msg. error (results ok ! 0) = Some msg)
         \<and> errorCode (results ok ! 0) = None
         \<and> provider (results ok ! 0) = js ''OpenAI''
         \<and> (\<exists>msg. error (results ok ! 1) = Some msg)
         \<and> errorCode (results ok ! 1) = Some (js ''UNSUPPORTED_MODEL'')
         \<and> provider (results ok ! 1) = js ''Unknown'')"
proof -
  let ?ids = "[js ''gpt-4'', js ''unknown-model'']"
  let ?run = "post_prompts_test env_rejecting state0
                (prompt_request (js ''Hello'') ?ids JUndefined JUndefined JUndefined)"
  note h1 = hello_trim
  have h2: "?ids \<noteq> []" by simp
  note c0 = model_id_facts(1)
  note c1 = model_id_facts(7)
  note c2 = model_id_facts(8)
  from failure_result_fields [OF h1 h2, of env_rejecting state0 JUndefined JUndefined JUndefined]
  obtain ok s' where run: "?run = (Inr ok, s')"
    and all: "list_all2 (\<lambda>m r. \<not> success r \<longrightarrow>
                 model r = m \<and> prompt r = js ''Hello'' \<and> (\<exists>msg. error r = Some msg)
                 \<and> (if str_includes m (js ''gpt'') \<or> str_startsWith m (js ''claude-'')
                     then provider r = js ''OpenAI'' \<and> errorCode r = None
                     else provider r = js ''Unknown''
                       \<and> errorCode r = Some (js ''UNSUPPORTED_MODEL''))) ?ids (results ok)"
    by (elim exE conjE) (rule that, assumption+)
  from all obtain r0 r1 where rs: "results ok = [r0, r1]"
    and a0: "\<not> success r0 \<longrightarrow>
                 model r0 = js ''gpt-4'' \<and> prompt r0 = js ''Hello'' \<and> (\<exists>msg. error r0 = Some msg)
                 \<and> (if str_includes (js ''gpt-4'') (js ''gpt'') \<or> str_startsWith (js ''gpt-4'') (js ''claude-'')
                     then provider r0 = js ''OpenAI'' \<and> errorCode r0 = None
                     else provider r0 = js ''Unknown''
                       \<and> errorCode r0 = Some (js ''UNSUPPORTED_MODEL''))"
    and a1: "\<not> success r1 \<longrightarrow>
                 model r1 = js ''unknown-model'' \<and> prompt r1 = js ''Hello'' \<and> (\<exists>msg. error r1 = Some msg)
                 \<and> (if str_includes (js ''unknown-model'') (js ''gpt'')
                        \<or> str_startsWith (js ''unknown-model'') (js ''claude-'')
                     then provider r1 = js ''OpenAI'' \<and> errorCode r1 = None
                     else provider r1 = js ''Unknown''
                       \<and> errorCode r1 = Some (js ''UNSUPPORTED_MODEL''))"
    by (rule list_all2_two)
  from post_prompts_test_results [OF h1 h2, of env_rejecting state0 JUndefined JUndefined JUndefined] run
  have "list_all2 (\<lambda>m r. \<exists>s0 opts. r = fst (test_model env_rejecting s0 (js ''Hello'') opts m))
          ?ids (results ok)" by auto
  with rs have q0: "\<exists>s0 opts. r0 = fst (test_model env_rejecting s0 (js ''Hello'') opts (js ''gpt-4''))"
    and q1: "\<exists>s0 opts. r1 = fst (test_model env_rejecting s0 (js ''Hello'') opts (js ''unknown-model''))"
    by simp_all
  from q0 obtain s0 opts where "r0 = fst (openai_testPrompt env_rejecting s0 (js ''Hello'') (js ''gpt-4'') opts)"
    by (auto simp: test_model_gpt [OF c0])
  with openai_rejected [OF env_rejecting_openai env_rejecting_create, of s0 "js ''Hello''" "js ''gpt-4''" opts]
  have f0: "\<not> success r0" by simp
  from q1 have f1: "\<not> success r1"
    by (auto simp: test_model_other [OF c1 c2] unsupported_result_eq)
  from rs f0 f1 have sc: "map success (results ok) = [False, False]" by simp
  from a0 f0 c0 have g0: "(\<exists>msg. error r0 = Some msg) \<and> errorCode r0 = None \<and> provider r0 = js ''OpenAI''"
    by simp
  from a1 f1 c1 c2 have g1: "(\<exists>msg. error r1 = Some msg) \<and> errorCode r1 = Some (js ''UNSUPPORTED_MODEL'')
      \<and> provider r1 = js ''Unknown''"
    by simp
  from g0 rs have x0: "\<exists>msg. error (results ok ! 0) = Some msg"
    and x1: "errorCode (results ok ! 0) = None"
    and x2: "provider (results ok ! 0) = js ''OpenAI''" by simp_all
  from g1 rs have y0: "\<exists>msg. error (results ok ! 1) = Some msg"
    and y1: "errorCode (results ok ! 1) = Some (js ''UNSUPPORTED_MODEL'')"
    and y2: "provider (results ok ! 1) = js ''Unknown''" by simp_all
  show ?thesis
    by (intro conjI exI [of _ ok] exI [of _ s']) (rule h1 h2 run sc x0 x1 x2 y0 y1 y2)+
qed

text \<open>
  C10. When no OpenAI client is configured, the OpenAI adapter returns the simulated
  success: the mock text, a response time, a token count and a cost drawn from three
  random numbers. The Anthropic adapter returns its simulated success whether or not a
  credential is configured; the credential only selects which of the two mock texts is
  returned. So without an OpenAI client a failure result of a batch can only belong to
  an unsupported model id.
\<close>

theorem simulated_success_without_credentials:
  "(\<not> openai e \<longrightarrow>
      openai_testPrompt e s p m opts =
        (\<lparr>success = True, model = m, provider = js ''OpenAI'', prompt = p,
          response = Some (js ''Mock response from '' @ m
            @ js '': This would be a real AI response if you had configured your OpenAI API key. Your prompt was: ''
            @ prompt_excerpt p),
          error = None, errorCode = None,
          metadata = \<lparr>responseTime = Math_round (fl (1000 + fl (random_src e (random_ix s) * 1500))),
            tokens = Some \<lparr>tokens_prompt = None, tokens_completion = None,
              tokens_total = Math_floor (fl (random_src e (random_ix s + 1) * 200)) + 50\<rparr>,
            cost = Some \<lparr>cost_input = None, cost_output = None,
              cost_total = FixedText (toFixed6 (fl (random_src e (random_ix s + 2) * fl (1 / 100))))\<rparr>,
            timestamp = clock_src e (clock_ix s + 1)\<rparr>\<rparr>,
         \<lparr>random_ix = random_ix s + 3, clock_ix = clock_ix s + 2, create_ix = create_ix s,
          invocations = invocations s @ [(OpenAIService, m)]\<rparr>))
   \<and> anthropic_testPrompt e s p m opts =
        (\<lparr>success = True, model = m, provider = js ''Anthropic'', prompt = p,
          response = Some
            (if anthropic e then
               js ''Mock Claude response: I understand you want me to respond to '' @ [0x22]
               @ substring0 30 p @ js ''...'' @ [0x22]
               @ js '' - this would be a real Claude response with proper API integration.''
             else
               js ''Mock response from '' @ m
               @ js '': This would be a real Claude response if you had configured your Anthropic API key. Your prompt was: ''
               @ prompt_excerpt p),
          error = None, errorCode = None,
          metadata = \<lparr>responseTime = Math_round (fl (1200 + fl (random_src e (random_ix s) * 1800))),
            tokens = Some \<lparr>tokens_prompt = None, tokens_completion = None,
              tokens_total = Math_floor (fl (random_src e (random_ix s + 1) * 250)) + 60\<rparr>,
            cost = Some \<lparr>cost_input = None, cost_output = None,
              cost_total = FixedText (toFixed6 (fl (random_src e (random_ix s + 2) * fl (2 / 100))))\<rparr>,
            timestamp = clock_src e (clock_ix s + 1)\<rparr>\<rparr>,
         \<lparr>random_ix = random_ix s + 3, clock_ix = clock_ix s + 2, create_ix = create_ix s,
          invocations = invocations s @ [(AnthropicService, m)]\<rparr>)
   \<and> (\<not> openai e \<and> str_trim p \<noteq> [] \<and> ids \<noteq> [] \<longrightarrow>
        (\<exists>ok s'. post_prompts_test e s (prompt_request p ids it tmp mt) = (Inr ok, s')
           \<and> list_all2 (\<lambda>m r. \<not> success r \<longrightarrow>
                 \<not> str_includes m (js ''gpt'') \<and> \<not> str_startsWith m (js ''claude-''))
               ids (results ok)))"
proof -
  have a: "\<not> openai e \<longrightarrow>
      openai_testPrompt e s p m opts =
        (\<lparr>success = True, model = m, provider = js ''OpenAI'', prompt = p,
          response = Some (js ''Mock response from '' @ m
            @ js '': This would be a real AI response if you had configured your OpenAI API key. Your prompt was: ''
            @ prompt_excerpt p),
          error = None, errorCode = None,
          metadata = \<lparr>responseTime = Math_round (fl (1000 + fl (random_src e (random_ix s) * 1500))),
            tokens = Some \<lparr>tokens_prompt = None, tokens_completion = None,
              tokens_total = Math_floor (fl (random_src e (random_ix s + 1) * 200)) + 50\<rparr>,
            cost = Some \<lparr>cost_input = None, cost_output = None,
              cost_total = FixedText (toFixed6 (fl (random_src e (random_ix s + 2) * fl (1 / 100))))\<rparr>,
            timestamp = clock_src e (clock_ix s + 1)\<rparr>\<rparr>,
         \<lparr>random_ix = random_ix s + 3, clock_ix = clock_ix s + 2, create_ix = create_ix s,
          invocations = invocations s @ [(OpenAIService, m)]\<rparr>)"
    using openai_simulated by blast
  note b = anthropic_simulated [of e s p m opts]
  have c: "\<not> openai e \<and> str_trim p \<noteq> [] \<and> ids \<noteq> [] \<longrightarrow>
        (\<exists>ok s'. post_prompts_test e s (prompt_request p ids it tmp mt) = (Inr ok, s')
           \<and> list_all2 (\<lambda>m r. \<not> success r \<longrightarrow>
                 \<not> str_includes m (js ''gpt'') \<and> \<not> str_startsWith m (js ''claude-''))
               ids (results ok))"
  proof
    assume h: "\<not> openai e \<and> str_trim p \<noteq> [] \<and> ids \<noteq> []"
    then have no: "\<not> openai e" and h1: "str_trim p \<noteq> []" and h2: "ids \<noteq> []" by simp_all
    let ?Q = "\<lambda>m r. \<not> success r \<longrightarrow>
                 \<not> str_includes m (js ''gpt'') \<and> \<not> str_startsWith m (js ''claude-'')"
    have q: "\<And>s m opts. ?Q m (fst (test_model e s p opts m))"
    proof -
      fix s m opts
      show "?Q m (fst (test_model e s p opts m))"
      proof (cases "str_includes m (js ''gpt'')")
        case True
        then have "success (fst (test_model e s p opts m))"
          using no by (simp add: test_model_gpt openai_mock_success)
        then show ?thesis by simp
      next
        case False
        with test_model_facts [OF refl, of e s p opts m] show ?thesis by blast
      qed
    qed
    from post_prompts_test_ok [of p ids ?Q e s it tmp mt, OF h1 h2 q]
    show "\<exists>ok s'. post_prompts_test e s (prompt_request p ids it tmp mt) = (Inr ok, s')
           \<and> list_all2 ?Q ids (results ok)" by blast
  qed
  show ?thesis
    by (intro conjI) (rule a b c)+
qed

theorem simulated_success_without_credentials_witness:
  "\<not> openai env_anthropic_key
   \<and> openai_testPrompt env_anthropic_key state0 (js ''Hello'') (js ''gpt-4'')
        \<lparr>opt_temperature = JNum 1, opt_maxTokens = JNum 500\<rparr> =
        (\<lparr>success = True, model = js ''gpt-4'', provider = js ''OpenAI'', prompt = js ''Hello'',
          response = Some (js ''Mock response from gpt-4: This would be a real AI response if you had configured your OpenAI API key. Your prompt was: ''
            @ [0x22] @ js ''Hello'' @ [0x22]),
          error = None, errorCode = None,
          metadata = \<lparr>responseTime = 1141,
            tokens = Some \<lparr>tokens_prompt = None, tokens_completion = None, tokens_total = 68\<rparr>,
            cost = Some \<lparr>cost_input = None, cost_output = None,
              cost_total = FixedText (937 / 1000000)\<rparr>,
            timestamp = 1700000001000\<rparr>\<rparr>,
         \<lparr>random_ix = 3, clock_ix = 2, create_ix = 0,
          invocations = [(OpenAIService, js ''gpt-4'')]\<rparr>)
   \<and> anthropic env_anthropic_key
   \<and> anthropic_testPrompt env_anthropic_key state0 (js ''Hello'') (js ''claude-3-opus-20240229'')
        \<lparr>opt_temperature = JNum 1, opt_maxTokens = JNum 500\<rparr> =
        (\<lparr>success = True, model = js ''claude-3-opus-20240229'', provider = js ''Anthropic'',
          prompt = js ''Hello'',
          response = Some (js ''Mock Claude response: I understand you want me to respond to ''
            @ [0x22] @ js ''Hello...'' @ [0x22]
            @ js '' - this would be a real Claude response with proper API integration.''),
          error = None, errorCode = None,
          metadata = \<lparr>responseTime = 1369,
            tokens = Some \<lparr>tokens_prompt = None, tokens_completion = None, tokens_total = 83\<rparr>,
            cost = Some \<lparr>cost_input = None, cost_output = None,
              cost_total = FixedText (1875 / 1000000)\<rparr>,
            timestamp = 1700000001000\<rparr>\<rparr>,
         \<lparr>random_ix = 3, clock_ix = 2, create_ix = 0,
          invocations = [(AnthropicService, js ''claude-3-opus-20240229'')]\<rparr>)
   \<and> \<not> anthropic env_default
   \<and> response (fst (anthropic_testPrompt env_default state0 (js ''Hello'')
         (js ''claude-3-opus-20240229'') \<lparr>opt_temperature = JNum 1, opt_maxTokens = JNum 500\<rparr>)) =
        Some (js ''Mock response from claude-3-opus-20240229: This would be a real Claude response if you had configured your Anthropic API key. Your prompt was: ''
            @ [0x22] @ js ''Hello'' @ [0x22])
   \<and> \<not> openai env_default
   \<and> str_trim (js ''Hello'') \<noteq> []
   \<and> [js ''gpt-4'', js ''claude-3-opus-20240229'', js ''unknown-model''] \<noteq> []
   \<and> (\<exists>ok s'. post_prompts_test env_default state0
                  (prompt_request (js ''Hello'')
                     [js ''gpt-4'', js ''claude-3-opus-20240229'', js ''unknown-model'']
                     JUndefined JUndefined JUndefined) = (Inr ok, s')
         \<and> map success (results ok) = [True, True, False]
         \<and> \<not> str_includes (js ''unknown-model'') (js ''gpt'')
         \<and> \<not> str_startsWith (js ''unknown-model'') (js ''claude-''))"
proof -
  let ?opts = "\<lparr>opt_temperature = JNum 1, opt_maxTokens = JNum 500\<rparr>"
  let ?ids = "[js ''gpt-4'', js ''claude-3-opus-20240229'', js ''unknown-model'']"
  let ?run = "post_prompts_test env_default state0
                (prompt_request (js ''Hello'') ?ids JUndefined JUndefined JUndefined)"
  note k1 = env_anthropic_key_clients(1)
  note k2 = env_anthropic_key_clients(2)
  note k3 = env_anthropic_key_clients(3)
  note no = no_openai_default
  note h1 = hello_trim
  have h2: "?ids \<noteq> []" by simp
  have rnd: "random_src env_anthropic_key k = 3 / 32" for k
    by (simp add: env_anthropic_key_def)
  have clk: "clock_src env_anthropic_key k = 1700000000000 + 1000 * int k" for k
    by (simp add: env_anthropic_key_def)
  note keyed_gpt = simulated_success_without_credentials
    [where e = env_anthropic_key and s = state0 and p = "js ''Hello''" and m = "js ''gpt-4''"
       and opts = ?opts and ids = ?ids and it = JUndefined and tmp = JUndefined and mt = JUndefined]
  note keyed = simulated_success_without_credentials
    [where e = env_anthropic_key and s = state0 and p = "js ''Hello''"
       and m = "js ''claude-3-opus-20240229''"
       and opts = ?opts and ids = ?ids and it = JUndefined and tmp = JUndefined and mt = JUndefined]
  note dflt = simulated_success_without_credentials
    [where e = env_default and s = state0 and p = "js ''Hello''"
       and m = "js ''claude-3-opus-20240229''"
       and opts = ?opts and ids = ?ids and it = JUndefined and tmp = JUndefined and mt = JUndefined]
  have r1: "openai_testPrompt env_anthropic_key state0 (js ''Hello'') (js ''gpt-4'') ?opts =
        (\<lparr>success = True, model = js ''gpt-4'', provider = js ''OpenAI'', prompt = js ''Hello'',
          response = Some (js ''Mock response from gpt-4: This would be a real AI response if you had configured your OpenAI API key. Your prompt was: ''
            @ [0x22] @ js ''Hello'' @ [0x22]),
          error = None, errorCode = None,
          metadata = \<lparr>responseTime = 1141,
            tokens = Some \<lparr>tokens_prompt = None, tokens_completion = None, tokens_total = 68\<rparr>,
            cost = Some \<lparr>cost_input = None, cost_output = None,
              cost_total = FixedText (937 / 1000000)\<rparr>,
            timestamp = 1700000001000\<rparr>\<rparr>,
         \<lparr>random_ix = 3, clock_ix = 2, create_ix = 0,
          invocations = [(OpenAIService, js ''gpt-4'')]\<rparr>)"
    unfolding mp [OF keyed_gpt [THEN conjunct1] k1]
    using env_anthropic_key_values
    by (simp add: rnd clk state0_def prompt_excerpt_def substring0_def js_def)
  have r2: "anthropic_testPrompt env_anthropic_key state0 (js ''Hello'') (js ''claude-3-opus-20240229'') ?opts =
        (\<lparr>success = True, model = js ''claude-3-opus-20240229'', provider = js ''Anthropic'',
          prompt = js ''Hello'',
          response = Some (js ''Mock Claude response: I understand you want me to respond to ''
            @ [0x22] @ js ''Hello...'' @ [0x22]
            @ js '' - this would be a real Claude response with proper API integration.''),
          error = None, errorCode = None,
          metadata = \<lparr>responseTime = 1369,
            tokens = Some \<lparr>tokens_prompt = None, tokens_completion = None, tokens_total = 83\<rparr>,
            cost = Some \<lparr>cost_input = None, cost_output = None,
              cost_total = FixedText (1875 / 1000000)\<rparr>,
            timestamp = 1700000001000\<rparr>\<rparr>,
         \<lparr>random_ix = 3, clock_ix = 2, create_ix = 0,
          invocations = [(AnthropicService, js ''claude-3-opus-20240229'')]\<rparr>)"
    unfolding keyed [THEN conjunct2, THEN conjunct1]
    using env_anthropic_key_values k2
    by (simp add: rnd clk state0_def substring0_def js_def)
  have r3: "response (fst (anthropic_testPrompt env_default state0 (js ''Hello'')
         (js ''claude-3-opus-20240229'') ?opts)) =
        Some (js ''Mock response from claude-3-opus-20240229: This would be a real Claude response if you had configured your Anthropic API key. Your prompt was: ''
            @ [0x22] @ js ''Hello'' @ [0x22])"
    unfolding dflt [THEN conjunct2, THEN conjunct1]
    using k3 by (simp add: prompt_excerpt_def substring0_def js_def)
  from mp [OF dflt [THEN conjunct2, THEN conjunct2] conjI [OF no conjI [OF h1 h2]]]
  obtain ok s' where run: "?run = (Inr ok, s')"
    and all: "list_all2 (\<lambda>m r. \<not> success r \<longrightarrow>
                 \<not> str_includes m (js ''gpt'') \<and> \<not> str_startsWith m (js ''claude-''))
               ?ids (results ok)"
    by (elim exE conjE) (rule that, assumption+)
  from post_prompts_test_results [OF h1 h2, of env_default state0 JUndefined JUndefined JUndefined] run
  have "list_all2 (\<lambda>m r. \<exists>s0 opts. r = fst (test_model env_default s0 (js ''Hello'') opts m))
          ?ids (results ok)" by auto
  then obtain r0 r1' r2' where rs: "results ok = [r0, r1', r2']"
    and q0: "\<exists>s0 opts. r0 = fst (test_model env_default s0 (js ''Hello'') opts (js ''gpt-4''))"
    and q1: "\<exists>s0 opts. r1' = fst (test_model env_default s0 (js ''Hello'') opts (js ''claude-3-opus-20240229''))"
    and q2: "\<exists>s0 opts. r2' = fst (test_model env_default s0 (js ''Hello'') opts (js ''unknown-model''))"
    by (rule list_all2_three)
  from q0 have f0: "success r0"
    by (auto simp: test_model_gpt [OF model_id_facts(1)] openai_simulated [OF no_openai_default])
  from q1 have f1: "success r1'"
    by (auto simp: test_model_claude [OF model_id_facts(5) model_id_facts(6)] anthropic_simulated)
  from q2 have f2: "\<not> success r2'"
    by (auto simp: test_model_other [OF model_id_facts(7) model_id_facts(8)] unsupported_result_eq)
  from rs f0 f1 f2 have sc: "map success (results ok) = [True, True, False]" by simp
  from all rs f2 have u1: "\<not> str_includes (js ''unknown-model'') (js ''gpt'')"
    and u2: "\<not> str_startsWith (js ''unknown-model'') (js ''claude-'')"
    by simp_all
  show ?thesis
    by (intro conjI exI [of _ ok] exI [of _ s']) (rule k1 r1 k2 r2 k3 r3 no h1 h2 run sc u1 u2)+
qed

end
